theory Spec2Isabelle
  imports Main "HOL-Library.Word"
begin

section \<open>The confidential Rock-Paper-Scissors contract\<close>

text \<open>
  A shallow embedding of the Solidity contract \<open>FHERockPaperScissors\<close>: its storage
  (the single \<open>Game\<close> struct), its three state-changing entry points
  \<open>startGame\<close>, \<open>joinGame\<close>, \<open>submitEncryptedChoice\<close>, the private
  \<open>_computeWinnerFHE\<close> and the view \<open>getGame\<close>. A \<open>require\<close> that fails
  reverts the whole call, so every entry point returns either the revert reason
  (\<open>Inl\<close>) or the new contract state (\<open>Inr\<close>).
\<close>

subsection \<open>Solidity value types\<close>

type_synonym address = "160 word"
type_synonym bytes32 = "256 word"
type_synonym bytes = "8 word list"
type_synonym externalEuint32 = bytes32

text \<open>\<open>enum GameStatus { Waiting, InProgress, Completed }\<close>; the first value is the
  one a zero-initialised storage slot holds.\<close>

datatype GameStatus = Waiting | InProgress | Completed

subsection \<open>The homomorphic library\<close>

text \<open>
  Modelled from the spec: the library \<open>@fhevm/solidity\<close> (\<open>FHE.sol\<close>) that the
  contract imports is an external dependency and is not among the sources. The spec
  describes it as a black box "providing encrypted-integer equality, encrypted-boolean
  conjunction/disjunction, and an operation that marks an encrypted value as publicly
  revealable", over opaque values that the contract never reads in plaintext.

  The contract only ever holds \<^emph>\<open>handles\<close> of ciphertexts. A handle is kept here
  symbolically, as the operation that produced it: \<open>euint32_zero\<close> and \<open>ebool_zero\<close>
  are the all-zero handle (\<open>euint32.wrap(0)\<close>, \<open>ebool.wrap(0)\<close>), \<open>Ciphertext32 h\<close>
  is an admitted input ciphertext with external handle \<open>h\<close>, and the remaining
  constructors are the results of \<open>FHE.asEuint32\<close>, \<open>FHE.eq\<close>, \<open>FHE.and\<close>,
  \<open>FHE.or\<close>. The symbolic form contains no plaintext: two handles are equal exactly
  when they were produced the same way.
\<close>

datatype euint32 =
    euint32_zero
  | Ciphertext32 bytes32
  | FHE_asEuint32 "32 word"

datatype ebool =
    ebool_zero
  | FHE_eq euint32 euint32
  | FHE_and ebool ebool
  | FHE_or ebool ebool

text \<open>
  Modelled from the spec: what the external decryption collaborator would return for a
  handle. \<open>pt\<close> gives the plaintext that the submitting client sealed in each input
  ciphertext; the contract has no access to it. An uninitialised handle counts as zero
  (false).
\<close>

type_synonym plaintexts = "bytes32 \<Rightarrow> 32 word"

fun decrypt32 :: "plaintexts \<Rightarrow> euint32 \<Rightarrow> 32 word" where
  "decrypt32 pt euint32_zero = 0"
| "decrypt32 pt (Ciphertext32 h) = pt h"
| "decrypt32 pt (FHE_asEuint32 v) = v"

fun decryptBool :: "plaintexts \<Rightarrow> ebool \<Rightarrow> bool" where
  "decryptBool pt ebool_zero = False"
| "decryptBool pt (FHE_eq a b) = (decrypt32 pt a = decrypt32 pt b)"
| "decryptBool pt (FHE_and p q) = (decryptBool pt p \<and> decryptBool pt q)"
| "decryptBool pt (FHE_or p q) = (decryptBool pt p \<or> decryptBool pt q)"

text \<open>A handle of either type, as the access-control list of the library stores it.\<close>

datatype handle = Handle32 euint32 | HandleBool ebool

subsection \<open>Storage, events, revert reasons\<close>

record Game =
  player1 :: address
  player2 :: address
  encryptedPlayer1Choice :: euint32
  encryptedPlayer2Choice :: euint32
  encryptedP1Wins :: ebool
  encryptedIsTie :: ebool
  winner :: address
  status :: GameStatus

datatype event =
    GameStarted address
  | GameJoined address
  | EncryptedChoiceSubmitted address
  | GameCompleted address

text \<open>
  The contract state: the storage variable \<open>game\<close>, the log of emitted events (oldest
  first), and the two effects the contract has on the library's access-control list:
  the handles passed to \<open>FHE.allowThis\<close> and those passed to
  \<open>FHE.makePubliclyDecryptable\<close>, each in call order.
\<close>

record contract =
  game :: Game
  emitted :: "event list"
  allowedThis :: "handle list"
  publiclyDecryptable :: "handle list"

text \<open>One constructor per \<open>require\<close> message of the contract; \<open>Input_rejected\<close> is
  the revert of \<open>FHE.fromExternal\<close> on a ciphertext or proof it does not accept.\<close>

datatype revert =
    Game_already_started
  | Game_not_started
  | Game_already_has_two_players
  | Cannot_join_your_own_game
  | Game_is_not_waiting_for_players
  | Not_a_player_in_this_game
  | Game_not_in_valid_state
  | Player_1_already_submitted_choice
  | Player_2_already_submitted_choice
  | Input_rejected

text \<open>The failure kinds of the specification's error table, and the kind each revert
  reason of the contract falls under. The table has no kind for a submit to a game
  that is over, nor for a rejected input.\<close>

datatype failure =
    AlreadyInProgress | NoGame | SelfJoin | SeatTaken | NotAPlayer | DuplicateSubmission

fun kind :: "revert \<Rightarrow> failure option" where
  "kind Game_already_started = Some AlreadyInProgress"
| "kind Game_not_started = Some NoGame"
| "kind Game_already_has_two_players = Some SeatTaken"
| "kind Cannot_join_your_own_game = Some SelfJoin"
| "kind Game_is_not_waiting_for_players = Some SeatTaken"
| "kind Not_a_player_in_this_game = Some NotAPlayer"
| "kind Game_not_in_valid_state = None"
| "kind Player_1_already_submitted_choice = Some DuplicateSubmission"
| "kind Player_2_already_submitted_choice = Some DuplicateSubmission"
| "kind Input_rejected = None"

text \<open>Storage right after deployment: every slot is zero.\<close>

definition deployed :: contract where
  "deployed =
     \<lparr> game = \<lparr> player1 = 0, player2 = 0,
                encryptedPlayer1Choice = euint32_zero, encryptedPlayer2Choice = euint32_zero,
                encryptedP1Wins = ebool_zero, encryptedIsTie = ebool_zero,
                winner = 0, status = Waiting \<rparr>,
       emitted = [], allowedThis = [], publiclyDecryptable = [] \<rparr>"

subsection \<open>Library calls with an effect\<close>

definition emit :: "event \<Rightarrow> contract \<Rightarrow> contract" where
  "emit e c = c\<lparr>emitted := emitted c @ [e]\<rparr>"

definition FHE_allowThis :: "handle \<Rightarrow> contract \<Rightarrow> contract" where
  "FHE_allowThis h c = c\<lparr>allowedThis := allowedThis c @ [h]\<rparr>"

text \<open>Modelled from the spec: marking a value publicly decryptable records its handle and
  hands the value back unchanged.\<close>

definition FHE_makePubliclyDecryptable :: "ebool \<Rightarrow> contract \<Rightarrow> ebool \<times> contract" where
  "FHE_makePubliclyDecryptable b c =
     (b, c\<lparr>publiclyDecryptable := publiclyDecryptable c @ [HandleBool b]\<rparr>)"

subsection \<open>Entry points\<close>

definition startGame :: "address \<Rightarrow> contract \<Rightarrow> revert + contract" where
  "startGame sender c =
     (if \<not> player1 (game c) = 0 then Inl Game_already_started
      else Inr (emit (GameStarted sender)
             (c\<lparr>game := \<lparr> player1 = sender, player2 = 0,
                          encryptedPlayer1Choice = euint32_zero,
                          encryptedPlayer2Choice = euint32_zero,
                          encryptedP1Wins = ebool_zero, encryptedIsTie = ebool_zero,
                          winner = 0, status = Waiting \<rparr>\<rparr>)))"

definition joinGame :: "address \<Rightarrow> contract \<Rightarrow> revert + contract" where
  "joinGame sender c =
     (if \<not> player1 (game c) \<noteq> 0 then Inl Game_not_started
      else if \<not> player2 (game c) = 0 then Inl Game_already_has_two_players
      else if \<not> player1 (game c) \<noteq> sender then Inl Cannot_join_your_own_game
      else if \<not> status (game c) = Waiting then Inl Game_is_not_waiting_for_players
      else Inr (emit (GameJoined sender)
             (c\<lparr>game := (game c)\<lparr>player2 := sender, status := InProgress\<rparr>\<rparr>)))"

text \<open>\<open>_computeWinnerFHE\<close>, statement by statement.\<close>

definition computeWinnerFHE :: "contract \<Rightarrow> contract" where
  "computeWinnerFHE c =
     (let rock = FHE_asEuint32 0;
          paper = FHE_asEuint32 1;
          scissors = FHE_asEuint32 2;
          p1Choice = encryptedPlayer1Choice (game c);
          p2Choice = encryptedPlayer2Choice (game c);
          isTie = FHE_eq p1Choice p2Choice;
          c = c\<lparr>game := (game c)\<lparr>encryptedIsTie := isTie\<rparr>\<rparr>;
          p1WinsRock = FHE_and (FHE_eq p1Choice rock) (FHE_eq p2Choice scissors);
          p1WinsPaper = FHE_and (FHE_eq p1Choice paper) (FHE_eq p2Choice rock);
          p1WinsScissors = FHE_and (FHE_eq p1Choice scissors) (FHE_eq p2Choice paper);
          p1Wins = FHE_or (FHE_or p1WinsRock p1WinsPaper) p1WinsScissors;
          c = c\<lparr>game := (game c)\<lparr>encryptedP1Wins := p1Wins\<rparr>\<rparr>;
          (b, c) = FHE_makePubliclyDecryptable (encryptedP1Wins (game c)) c;
          c = c\<lparr>game := (game c)\<lparr>encryptedP1Wins := b\<rparr>\<rparr>;
          (b, c) = FHE_makePubliclyDecryptable (encryptedIsTie (game c)) c;
          c = c\<lparr>game := (game c)\<lparr>encryptedIsTie := b\<rparr>\<rparr>;
          c = FHE_allowThis (HandleBool (encryptedP1Wins (game c))) c;
          c = FHE_allowThis (HandleBool (encryptedIsTie (game c))) c
      in c\<lparr>game := (game c)\<lparr>status := Completed\<rparr>\<rparr>)"

text \<open>The tail of \<open>submitEncryptedChoice\<close>, after the caller's slot has been written.\<close>

definition afterStore :: "address \<Rightarrow> contract \<Rightarrow> contract" where
  "afterStore sender c =
     (let c = emit (EncryptedChoiceSubmitted sender) c;
          bothChoicesSubmitted =
            (encryptedPlayer1Choice (game c) \<noteq> euint32_zero \<and>
             encryptedPlayer2Choice (game c) \<noteq> euint32_zero)
      in if bothChoicesSubmitted \<and> status (game c) = InProgress
         then computeWinnerFHE c else c)"

text \<open>
  \<open>FHE.fromExternal\<close> is a parameter: given the external handle, the proof and the
  sender it either rejects (\<open>None\<close>, the call reverts) or yields the internal
  encrypted integer. Nothing is assumed about which handle it yields.
\<close>

type_synonym verifier = "externalEuint32 \<Rightarrow> bytes \<Rightarrow> address \<Rightarrow> euint32 option"

definition submitEncryptedChoice ::
    "verifier \<Rightarrow> address \<Rightarrow> externalEuint32 \<Rightarrow> bytes \<Rightarrow> contract \<Rightarrow> revert + contract" where
  "submitEncryptedChoice fromExternal sender inputEuint32 inputProof c =
     (if \<not> player1 (game c) \<noteq> 0 then Inl Game_not_started
      else if \<not> (sender = player1 (game c) \<or> sender = player2 (game c))
        then Inl Not_a_player_in_this_game
      else if \<not> (status (game c) = Waiting \<or> status (game c) = InProgress)
        then Inl Game_not_in_valid_state
      else case fromExternal inputEuint32 inputProof sender of
        None \<Rightarrow> Inl Input_rejected
      | Some encryptedChoice \<Rightarrow>
          if sender = player1 (game c) then
            if \<not> encryptedPlayer1Choice (game c) = euint32_zero
            then Inl Player_1_already_submitted_choice
            else Inr (afterStore sender
                   (FHE_allowThis (Handle32 encryptedChoice)
                      (c\<lparr>game := (game c)\<lparr>encryptedPlayer1Choice := encryptedChoice\<rparr>\<rparr>)))
          else
            if \<not> encryptedPlayer2Choice (game c) = euint32_zero
            then Inl Player_2_already_submitted_choice
            else Inr (afterStore sender
                   (FHE_allowThis (Handle32 encryptedChoice)
                      (c\<lparr>game := (game c)\<lparr>encryptedPlayer2Choice := encryptedChoice\<rparr>\<rparr>))))"

text \<open>The values \<open>getGame\<close> returns, in order, as the caller decodes them.\<close>

datatype abi_value =
    Address address
  | Ebool ebool
  | Status GameStatus

definition getGame :: "contract \<Rightarrow> abi_value list" where
  "getGame c =
     [Address (player1 (game c)), Address (player2 (game c)),
      Ebool (encryptedP1Wins (game c)), Ebool (encryptedIsTie (game c)),
      Address (winner (game c)), Status (status (game c))]"

subsection \<open>Transactions and runs\<close>

datatype call =
    StartGame
  | JoinGame
  | SubmitEncryptedChoice externalEuint32 bytes

fun exec :: "verifier \<Rightarrow> address \<times> call \<Rightarrow> contract \<Rightarrow> revert + contract" where
  "exec fromExternal (sender, StartGame) c = startGame sender c"
| "exec fromExternal (sender, JoinGame) c = joinGame sender c"
| "exec fromExternal (sender, SubmitEncryptedChoice h p) c =
     submitEncryptedChoice fromExternal sender h p c"

text \<open>A transaction that reverts leaves the contract state as it was.\<close>

definition step :: "verifier \<Rightarrow> address \<times> call \<Rightarrow> contract \<Rightarrow> contract" where
  "step fromExternal tx c = (case exec fromExternal tx c of Inl _ \<Rightarrow> c | Inr c' \<Rightarrow> c')"

fun run :: "verifier \<Rightarrow> contract \<Rightarrow> (address \<times> call) list \<Rightarrow> contract" where
  "run fromExternal c [] = c"
| "run fromExternal c (tx # txs) = run fromExternal (step fromExternal tx c) txs"

text \<open>No transaction is sent from the zero address. The contract compares the sender
  with \<open>player2\<close>, which is the zero address until somebody joins, so the runs
  considered are those whose senders are real accounts.\<close>

definition senders_ok :: "(address \<times> call) list \<Rightarrow> bool" where
  "senders_ok txs = list_all (\<lambda>tx. fst tx \<noteq> 0) txs"

text \<open>A verifier that admits every input, keeping the external handle.\<close>

definition admit_all :: verifier where
  "admit_all h p sender = Some (Ciphertext32 h)"


subsection \<open>The specification's read, and what an outside observer learns\<close>

text \<open>The read as the specification words it: five components.\<close>

definition resolve_spec :: "contract \<Rightarrow> abi_value list" where
  "resolve_spec c =
     [Address (player1 (game c)), Address (player2 (game c)),
      Ebool (encryptedP1Wins (game c)), Ebool (encryptedIsTie (game c)),
      Status (status (game c))]"

text \<open>\<open>@dev Rock=0, Paper=1, Scissors=2\<close>\<close>

definition ROCK :: "32 word" where "ROCK = 0"
definition PAPER :: "32 word" where "PAPER = 1"
definition SCISSORS :: "32 word" where "SCISSORS = 2"

text \<open>The rule of the game on plaintexts, as the contract's comment and the
  specification state it: player 1 wins with Rock against Scissors, Paper against
  Rock, Scissors against Paper. The outcome of a game under an assignment of
  plaintexts is the pair (player 1 wins, tie) this rule gives for the two stored
  choices.\<close>

definition p1_beats :: "32 word \<Rightarrow> 32 word \<Rightarrow> bool" where
  "p1_beats a b =
     (a = ROCK \<and> b = SCISSORS \<or> a = PAPER \<and> b = ROCK \<or> a = SCISSORS \<and> b = PAPER)"

definition outcome :: "plaintexts \<Rightarrow> Game \<Rightarrow> bool \<times> bool" where
  "outcome pt g =
     (p1_beats (decrypt32 pt (encryptedPlayer1Choice g)) (decrypt32 pt (encryptedPlayer2Choice g)),
      decrypt32 pt (encryptedPlayer1Choice g) = decrypt32 pt (encryptedPlayer2Choice g))"

text \<open>
  Modelled from the spec: a value marked publicly decryptable can be opened by anyone
  through the external decryption collaborator. \<open>reveal\<close> is the plaintext so
  obtained, and \<open>publicView\<close> is everything an outside party can observe of a
  contract state: the result of the read, the event log, the handles the contract
  stores and has granted itself, and the plaintext of each handle marked publicly
  decryptable.
\<close>

datatype plain = PlainUint32 "32 word" | PlainBool bool

fun reveal :: "plaintexts \<Rightarrow> handle \<Rightarrow> plain" where
  "reveal pt (Handle32 x) = PlainUint32 (decrypt32 pt x)"
| "reveal pt (HandleBool b) = PlainBool (decryptBool pt b)"

definition publicView ::
    "plaintexts \<Rightarrow> contract \<Rightarrow>
       abi_value list \<times> Game \<times> event list \<times> handle list \<times> handle list \<times> plain list" where
  "publicView pt c =
     (getGame c, game c, emitted c, allowedThis c, publiclyDecryptable c,
      map (reveal pt) (publiclyDecryptable c))"

text \<open>The three per-shape intermediate booleans of \<open>_computeWinnerFHE\<close>.\<close>

definition p1WinsRock :: "Game \<Rightarrow> ebool" where
  "p1WinsRock g = FHE_and (FHE_eq (encryptedPlayer1Choice g) (FHE_asEuint32 0))
                          (FHE_eq (encryptedPlayer2Choice g) (FHE_asEuint32 2))"

definition p1WinsPaper :: "Game \<Rightarrow> ebool" where
  "p1WinsPaper g = FHE_and (FHE_eq (encryptedPlayer1Choice g) (FHE_asEuint32 1))
                           (FHE_eq (encryptedPlayer2Choice g) (FHE_asEuint32 0))"

definition p1WinsScissors :: "Game \<Rightarrow> ebool" where
  "p1WinsScissors g = FHE_and (FHE_eq (encryptedPlayer1Choice g) (FHE_asEuint32 2))
                              (FHE_eq (encryptedPlayer2Choice g) (FHE_asEuint32 1))"

text \<open>The slot \<open>submitEncryptedChoice\<close> routes a caller to: player 1 to the first,
  anyone else (player 2) to the second.\<close>

definition seat_slot :: "address \<Rightarrow> Game \<Rightarrow> euint32" where
  "seat_slot sender g =
     (if sender = player1 g then encryptedPlayer1Choice g else encryptedPlayer2Choice g)"

text \<open>Whether an event of the log is a \<open>GameCompleted\<close>.\<close>

fun isGameCompleted :: "event \<Rightarrow> bool" where
  "isGameCompleted (GameCompleted w) = True"
| "isGameCompleted _ = False"

subsection \<open>The invariant of reachable states\<close>

text \<open>What holds of the contract after any sequence of transactions, none of them sent
  from the zero address.\<close>

definition game_inv :: "contract \<Rightarrow> bool" where
  "game_inv c =
     ((player1 (game c) = 0 \<longrightarrow> encryptedPlayer1Choice (game c) = euint32_zero) \<and>
      (status (game c) = Waiting) = (player2 (game c) = 0) \<and>
      (player2 (game c) = 0 \<longrightarrow> encryptedPlayer2Choice (game c) = euint32_zero) \<and>
      (player2 (game c) \<noteq> 0 \<longrightarrow> player1 (game c) \<noteq> 0 \<and> player1 (game c) \<noteq> player2 (game c)) \<and>
      (status (game c) = Completed) =
        (encryptedPlayer1Choice (game c) \<noteq> euint32_zero \<and>
         encryptedPlayer2Choice (game c) \<noteq> euint32_zero) \<and>
      winner (game c) = 0 \<and>
      publiclyDecryptable c =
        (if status (game c) = Completed
         then [HandleBool (encryptedP1Wins (game c)), HandleBool (encryptedIsTie (game c))]
         else []) \<and>
      (status (game c) = Completed \<longrightarrow>
         encryptedIsTie (game c) =
           FHE_eq (encryptedPlayer1Choice (game c)) (encryptedPlayer2Choice (game c)) \<and>
         encryptedP1Wins (game c) =
           FHE_or
             (FHE_or
                (FHE_and (FHE_eq (encryptedPlayer1Choice (game c)) (FHE_asEuint32 0))
                         (FHE_eq (encryptedPlayer2Choice (game c)) (FHE_asEuint32 2)))
                (FHE_and (FHE_eq (encryptedPlayer1Choice (game c)) (FHE_asEuint32 1))
                         (FHE_eq (encryptedPlayer2Choice (game c)) (FHE_asEuint32 0))))
             (FHE_and (FHE_eq (encryptedPlayer1Choice (game c)) (FHE_asEuint32 2))
                      (FHE_eq (encryptedPlayer2Choice (game c)) (FHE_asEuint32 1)))))"


section \<open>Auxiliary facts\<close>

subsection \<open>What each operation changes\<close>

lemma game_computeWinnerFHE:
  "game (computeWinnerFHE c) =
     (game c)\<lparr>encryptedIsTie :=
                 FHE_eq (encryptedPlayer1Choice (game c)) (encryptedPlayer2Choice (game c)),
               encryptedP1Wins :=
                 FHE_or
                   (FHE_or
                      (FHE_and (FHE_eq (encryptedPlayer1Choice (game c)) (FHE_asEuint32 0))
                               (FHE_eq (encryptedPlayer2Choice (game c)) (FHE_asEuint32 2)))
                      (FHE_and (FHE_eq (encryptedPlayer1Choice (game c)) (FHE_asEuint32 1))
                               (FHE_eq (encryptedPlayer2Choice (game c)) (FHE_asEuint32 0))))
                   (FHE_and (FHE_eq (encryptedPlayer1Choice (game c)) (FHE_asEuint32 2))
                            (FHE_eq (encryptedPlayer2Choice (game c)) (FHE_asEuint32 1))),
               status := Completed\<rparr>"
  by (simp add: computeWinnerFHE_def Let_def FHE_makePubliclyDecryptable_def FHE_allowThis_def)

lemma emitted_computeWinnerFHE: "emitted (computeWinnerFHE c) = emitted c"
  by (simp add: computeWinnerFHE_def Let_def FHE_makePubliclyDecryptable_def FHE_allowThis_def)

lemma publiclyDecryptable_computeWinnerFHE:
  "publiclyDecryptable (computeWinnerFHE c) =
     publiclyDecryptable c @
       [HandleBool (encryptedP1Wins (game (computeWinnerFHE c))),
        HandleBool (encryptedIsTie (game (computeWinnerFHE c)))]"
  by (simp add: computeWinnerFHE_def Let_def FHE_makePubliclyDecryptable_def FHE_allowThis_def)

lemma game_afterStore:
  "game (afterStore sender c) =
     (if encryptedPlayer1Choice (game c) \<noteq> euint32_zero \<and>
         encryptedPlayer2Choice (game c) \<noteq> euint32_zero \<and> status (game c) = InProgress
      then game (computeWinnerFHE c) else game c)"
  by (simp add: afterStore_def Let_def emit_def game_computeWinnerFHE)

lemma emitted_afterStore:
  "emitted (afterStore sender c) = emitted c @ [EncryptedChoiceSubmitted sender]"
  by (simp add: afterStore_def Let_def emit_def emitted_computeWinnerFHE)

lemma publiclyDecryptable_afterStore:
  "publiclyDecryptable (afterStore sender c) =
     (if encryptedPlayer1Choice (game c) \<noteq> euint32_zero \<and>
         encryptedPlayer2Choice (game c) \<noteq> euint32_zero \<and> status (game c) = InProgress
      then publiclyDecryptable c @
             [HandleBool (encryptedP1Wins (game (computeWinnerFHE c))),
              HandleBool (encryptedIsTie (game (computeWinnerFHE c)))]
      else publiclyDecryptable c)"
  by (simp add: afterStore_def Let_def emit_def publiclyDecryptable_computeWinnerFHE
        game_computeWinnerFHE)

text \<open>The shape of a successful submit.\<close>

lemma submit_Inr:
  assumes "submitEncryptedChoice fe sender h p c = Inr c'"
  obtains e where
    "fe h p sender = Some e"
    "player1 (game c) \<noteq> 0"
    "status (game c) = Waiting \<or> status (game c) = InProgress"
    "sender = player1 (game c) \<and> encryptedPlayer1Choice (game c) = euint32_zero \<and>
       c' = afterStore sender (FHE_allowThis (Handle32 e)
              (c\<lparr>game := (game c)\<lparr>encryptedPlayer1Choice := e\<rparr>\<rparr>))
     \<or> sender \<noteq> player1 (game c) \<and> sender = player2 (game c) \<and>
       encryptedPlayer2Choice (game c) = euint32_zero \<and>
       c' = afterStore sender (FHE_allowThis (Handle32 e)
              (c\<lparr>game := (game c)\<lparr>encryptedPlayer2Choice := e\<rparr>\<rparr>))"
  using assms unfolding submitEncryptedChoice_def
  by (auto split: if_splits option.splits)

subsection \<open>The invariant is kept\<close>

lemma game_inv_deployed: "game_inv deployed"
  by (simp add: game_inv_def deployed_def)

lemma game_inv_startGame: "game_inv c \<Longrightarrow> startGame sender c = Inr c' \<Longrightarrow> game_inv c'"
  by (auto simp: game_inv_def startGame_def emit_def split: if_splits)

lemma game_inv_joinGame: "game_inv c \<Longrightarrow> sender \<noteq> 0 \<Longrightarrow> joinGame sender c = Inr c' \<Longrightarrow> game_inv c'"
  by (auto simp: game_inv_def joinGame_def emit_def split: if_splits)

lemma game_inv_store1:
  assumes "game_inv c" "status (game c) \<noteq> Completed"
    "encryptedPlayer1Choice (game c) = euint32_zero" "player1 (game c) \<noteq> 0"
  shows "game_inv (afterStore sender (FHE_allowThis (Handle32 e)
              (c\<lparr>game := (game c)\<lparr>encryptedPlayer1Choice := e\<rparr>\<rparr>)))"
proof (cases "status (game c)")
  case Waiting
  with assms show ?thesis
    by (simp add: game_inv_def game_afterStore publiclyDecryptable_afterStore FHE_allowThis_def)
next
  case InProgress
  with assms show ?thesis
    by (simp add: game_inv_def game_afterStore publiclyDecryptable_afterStore
          game_computeWinnerFHE FHE_allowThis_def)
next
  case Completed
  with assms show ?thesis by simp
qed

lemma game_inv_store2:
  assumes "game_inv c" "status (game c) \<noteq> Completed"
    "encryptedPlayer2Choice (game c) = euint32_zero" "player2 (game c) \<noteq> 0"
  shows "game_inv (afterStore sender (FHE_allowThis (Handle32 e)
              (c\<lparr>game := (game c)\<lparr>encryptedPlayer2Choice := e\<rparr>\<rparr>)))"
proof (cases "status (game c)")
  case Waiting
  with assms show ?thesis
    by (simp add: game_inv_def)
next
  case InProgress
  with assms show ?thesis
    by (simp add: game_inv_def game_afterStore publiclyDecryptable_afterStore
          game_computeWinnerFHE FHE_allowThis_def)
next
  case Completed
  with assms show ?thesis by simp
qed

lemma game_inv_submit:
  assumes "game_inv c" "sender \<noteq> 0" "submitEncryptedChoice fe sender h p c = Inr c'"
  shows "game_inv c'"
  using assms(3)
proof (rule submit_Inr)
  fix e
  assume st: "status (game c) = Waiting \<or> status (game c) = InProgress"
    and p1: "player1 (game c) \<noteq> 0"
    and "sender = player1 (game c) \<and> encryptedPlayer1Choice (game c) = euint32_zero \<and>
       c' = afterStore sender (FHE_allowThis (Handle32 e)
              (c\<lparr>game := (game c)\<lparr>encryptedPlayer1Choice := e\<rparr>\<rparr>))
     \<or> sender \<noteq> player1 (game c) \<and> sender = player2 (game c) \<and>
       encryptedPlayer2Choice (game c) = euint32_zero \<and>
       c' = afterStore sender (FHE_allowThis (Handle32 e)
              (c\<lparr>game := (game c)\<lparr>encryptedPlayer2Choice := e\<rparr>\<rparr>))"
  then consider
      "encryptedPlayer1Choice (game c) = euint32_zero"
      "c' = afterStore sender (FHE_allowThis (Handle32 e)
              (c\<lparr>game := (game c)\<lparr>encryptedPlayer1Choice := e\<rparr>\<rparr>))"
    | "sender = player2 (game c)" "encryptedPlayer2Choice (game c) = euint32_zero"
      "c' = afterStore sender (FHE_allowThis (Handle32 e)
              (c\<lparr>game := (game c)\<lparr>encryptedPlayer2Choice := e\<rparr>\<rparr>))"
    by blast
  then show "game_inv c'"
  proof cases
    case 1
    from st have "status (game c) \<noteq> Completed" by auto
    with 1 p1 assms(1) show ?thesis by (simp add: game_inv_store1)
  next
    case 2
    from st have "status (game c) \<noteq> Completed" by auto
    moreover from 2(1) assms(2) have "player2 (game c) \<noteq> 0" by simp
    ultimately show ?thesis using 2 assms(1) by (simp add: game_inv_store2)
  qed
qed

lemma game_inv_step:
  assumes "game_inv c" "fst tx \<noteq> 0"
  shows "game_inv (step fe tx c)"
proof (cases tx)
  case (Pair sender cl)
  with assms show ?thesis
    by (cases cl)
       (auto simp: step_def split: sum.splits
          intro: game_inv_startGame game_inv_joinGame game_inv_submit)
qed

lemma game_inv_run: "game_inv c \<Longrightarrow> senders_ok txs \<Longrightarrow> game_inv (run fe c txs)"
  by (induction txs arbitrary: c) (simp_all add: senders_ok_def game_inv_step)

lemma game_inv_reachable: "senders_ok txs \<Longrightarrow> game_inv (run fe deployed txs)"
  by (rule game_inv_run [OF game_inv_deployed])


subsection \<open>Three concrete runs\<close>

text \<open>Player 1 starts, player 2 joins, player 1 submits the ciphertext with handle 10,
  player 2 the one with handle 20; every input is admitted.\<close>

lemmas op_defs = step_def startGame_def joinGame_def submitEncryptedChoice_def deployed_def
  emit_def afterStore_def computeWinnerFHE_def FHE_allowThis_def FHE_makePubliclyDecryptable_def
  admit_all_def Let_def

lemma example_waiting:
  "run admit_all deployed [(1, StartGame)] =
     \<lparr> game = \<lparr> player1 = 1, player2 = 0,
                encryptedPlayer1Choice = euint32_zero, encryptedPlayer2Choice = euint32_zero,
                encryptedP1Wins = ebool_zero, encryptedIsTie = ebool_zero,
                winner = 0, status = Waiting \<rparr>,
       emitted = [GameStarted 1], allowedThis = [], publiclyDecryptable = [] \<rparr>"
  by (simp add: op_defs)

lemma example_one_choice:
  "run admit_all deployed
       [(1, StartGame), (2, JoinGame), (1, SubmitEncryptedChoice 10 [])] =
     \<lparr> game = \<lparr> player1 = 1, player2 = 2,
                encryptedPlayer1Choice = Ciphertext32 10, encryptedPlayer2Choice = euint32_zero,
                encryptedP1Wins = ebool_zero, encryptedIsTie = ebool_zero,
                winner = 0, status = InProgress \<rparr>,
       emitted = [GameStarted 1, GameJoined 2, EncryptedChoiceSubmitted 1],
       allowedThis = [Handle32 (Ciphertext32 10)], publiclyDecryptable = [] \<rparr>"
  by (simp add: op_defs)

lemma example_completed:
  "run admit_all deployed
       [(1, StartGame), (2, JoinGame), (1, SubmitEncryptedChoice 10 []),
        (2, SubmitEncryptedChoice 20 [])] =
     \<lparr> game = \<lparr> player1 = 1, player2 = 2,
                encryptedPlayer1Choice = Ciphertext32 10,
                encryptedPlayer2Choice = Ciphertext32 20,
                encryptedP1Wins =
                  FHE_or
                    (FHE_or
                       (FHE_and (FHE_eq (Ciphertext32 10) (FHE_asEuint32 0))
                                (FHE_eq (Ciphertext32 20) (FHE_asEuint32 2)))
                       (FHE_and (FHE_eq (Ciphertext32 10) (FHE_asEuint32 1))
                                (FHE_eq (Ciphertext32 20) (FHE_asEuint32 0))))
                    (FHE_and (FHE_eq (Ciphertext32 10) (FHE_asEuint32 2))
                             (FHE_eq (Ciphertext32 20) (FHE_asEuint32 1))),
                encryptedIsTie = FHE_eq (Ciphertext32 10) (Ciphertext32 20),
                winner = 0, status = Completed \<rparr>,
       emitted = [GameStarted 1, GameJoined 2, EncryptedChoiceSubmitted 1,
                  EncryptedChoiceSubmitted 2],
       allowedThis =
         [Handle32 (Ciphertext32 10), Handle32 (Ciphertext32 20),
          HandleBool
            (FHE_or
               (FHE_or
                  (FHE_and (FHE_eq (Ciphertext32 10) (FHE_asEuint32 0))
                           (FHE_eq (Ciphertext32 20) (FHE_asEuint32 2)))
                  (FHE_and (FHE_eq (Ciphertext32 10) (FHE_asEuint32 1))
                           (FHE_eq (Ciphertext32 20) (FHE_asEuint32 0))))
               (FHE_and (FHE_eq (Ciphertext32 10) (FHE_asEuint32 2))
                        (FHE_eq (Ciphertext32 20) (FHE_asEuint32 1)))),
          HandleBool (FHE_eq (Ciphertext32 10) (Ciphertext32 20))],
       publiclyDecryptable =
         [HandleBool
            (FHE_or
               (FHE_or
                  (FHE_and (FHE_eq (Ciphertext32 10) (FHE_asEuint32 0))
                           (FHE_eq (Ciphertext32 20) (FHE_asEuint32 2)))
                  (FHE_and (FHE_eq (Ciphertext32 10) (FHE_asEuint32 1))
                           (FHE_eq (Ciphertext32 20) (FHE_asEuint32 0))))
               (FHE_and (FHE_eq (Ciphertext32 10) (FHE_asEuint32 2))
                        (FHE_eq (Ciphertext32 20) (FHE_asEuint32 1)))),
          HandleBool (FHE_eq (Ciphertext32 10) (Ciphertext32 20))] \<rparr>"
  by (simp add: op_defs)

lemma senders_ok_example:
  "senders_ok [(1, StartGame), (2, JoinGame), (1, SubmitEncryptedChoice 10 []),
        (2, SubmitEncryptedChoice 20 [])]"
  by (simp add: senders_ok_def)


subsection \<open>The completing submit and the winner formula\<close>

lemma afterStore_completes:
  assumes "status (game c) \<noteq> Completed" "status (game (afterStore sender c)) = Completed"
  shows "game (afterStore sender c) = game (computeWinnerFHE c)"
proof (cases "encryptedPlayer1Choice (game c) \<noteq> euint32_zero \<and>
         encryptedPlayer2Choice (game c) \<noteq> euint32_zero \<and> status (game c) = InProgress")
  case True
  then show ?thesis by (simp add: game_afterStore)
next
  case False
  have "game (afterStore sender c) = game c"
    unfolding game_afterStore using False by (rule if_not_P)
  with assms show ?thesis by simp
qed

lemma computeWinnerFHE_results:
  "encryptedIsTie (game (computeWinnerFHE c)) =
     FHE_eq (encryptedPlayer1Choice (game (computeWinnerFHE c)))
            (encryptedPlayer2Choice (game (computeWinnerFHE c))) \<and>
   encryptedP1Wins (game (computeWinnerFHE c)) =
     FHE_or (FHE_or (p1WinsRock (game (computeWinnerFHE c)))
                    (p1WinsPaper (game (computeWinnerFHE c))))
            (p1WinsScissors (game (computeWinnerFHE c)))"
  by (simp add: game_computeWinnerFHE p1WinsRock_def p1WinsPaper_def p1WinsScissors_def)

lemma submit_completes:
  assumes "submitEncryptedChoice fe sender h p c = Inr c'"
    and "status (game c') = Completed"
  shows "encryptedIsTie (game c') =
           FHE_eq (encryptedPlayer1Choice (game c')) (encryptedPlayer2Choice (game c')) \<and>
         encryptedP1Wins (game c') =
           FHE_or (FHE_or (p1WinsRock (game c')) (p1WinsPaper (game c')))
                  (p1WinsScissors (game c'))"
  using assms(1)
proof (rule submit_Inr)
  fix e
  assume st: "status (game c) = Waiting \<or> status (game c) = InProgress"
    and "sender = player1 (game c) \<and> encryptedPlayer1Choice (game c) = euint32_zero \<and>
       c' = afterStore sender (FHE_allowThis (Handle32 e)
              (c\<lparr>game := (game c)\<lparr>encryptedPlayer1Choice := e\<rparr>\<rparr>))
     \<or> sender \<noteq> player1 (game c) \<and> sender = player2 (game c) \<and>
       encryptedPlayer2Choice (game c) = euint32_zero \<and>
       c' = afterStore sender (FHE_allowThis (Handle32 e)
              (c\<lparr>game := (game c)\<lparr>encryptedPlayer2Choice := e\<rparr>\<rparr>))"
  then obtain x where x: "c' = afterStore sender x" "status (game x) = status (game c)"
    by (auto simp: FHE_allowThis_def)
  from st x(2) have "status (game x) \<noteq> Completed" by auto
  with assms(2) x(1) have "game c' = game (computeWinnerFHE x)"
    by (simp add: afterStore_completes)
  then show ?thesis
    by (simp only: computeWinnerFHE_results)
qed

lemma choices_distinct:
  "ROCK \<noteq> PAPER" "ROCK \<noteq> SCISSORS" "PAPER \<noteq> SCISSORS"
  "PAPER \<noteq> ROCK" "SCISSORS \<noteq> ROCK" "SCISSORS \<noteq> PAPER"
  by (simp_all add: ROCK_def PAPER_def SCISSORS_def)

lemma winner_formula:
  "decryptBool pt (FHE_or (FHE_or (p1WinsRock g) (p1WinsPaper g)) (p1WinsScissors g)) =
     (decrypt32 pt (encryptedPlayer1Choice g) = ROCK \<and>
        decrypt32 pt (encryptedPlayer2Choice g) = SCISSORS \<or>
      decrypt32 pt (encryptedPlayer1Choice g) = PAPER \<and>
        decrypt32 pt (encryptedPlayer2Choice g) = ROCK \<or>
      decrypt32 pt (encryptedPlayer1Choice g) = SCISSORS \<and>
        decrypt32 pt (encryptedPlayer2Choice g) = PAPER)"
  by (simp add: p1WinsRock_def p1WinsPaper_def p1WinsScissors_def ROCK_def PAPER_def SCISSORS_def)

lemma tie_formula:
  "decryptBool pt (FHE_eq (encryptedPlayer1Choice g) (encryptedPlayer2Choice g)) =
     (decrypt32 pt (encryptedPlayer1Choice g) = decrypt32 pt (encryptedPlayer2Choice g))"
  by simp

lemma exactly_one:
  fixes a b :: "32 word"
  shows "\<not> ((a = ROCK \<and> b = SCISSORS \<or> a = PAPER \<and> b = ROCK \<or> a = SCISSORS \<and> b = PAPER) \<and> a = b)"
  using choices_distinct by blast


subsection \<open>Reverts, and facts read off the invariant\<close>

lemma step_revert: "exec fe tx c = Inl e \<Longrightarrow> step fe tx c = c"
  by (simp add: step_def)

lemma startGame_cases:
  "startGame sender c =
     (if player1 (game c) = 0
      then Inr (c\<lparr>game := \<lparr> player1 = sender, player2 = 0,
                          encryptedPlayer1Choice = euint32_zero,
                          encryptedPlayer2Choice = euint32_zero,
                          encryptedP1Wins = ebool_zero, encryptedIsTie = ebool_zero,
                          winner = 0, status = Waiting \<rparr>,
                  emitted := emitted c @ [GameStarted sender]\<rparr>)
      else Inl Game_already_started)"
  by (simp add: startGame_def emit_def)

lemma game_inv_player1:
  assumes "game_inv c"
  shows "status (game c) \<noteq> Waiting \<Longrightarrow> player1 (game c) \<noteq> 0"
    and "encryptedPlayer1Choice (game c) \<noteq> euint32_zero \<Longrightarrow> player1 (game c) \<noteq> 0"
    and "encryptedPlayer2Choice (game c) \<noteq> euint32_zero \<Longrightarrow> player1 (game c) \<noteq> 0"
    and "encryptedPlayer2Choice (game c) \<noteq> euint32_zero \<Longrightarrow> player2 (game c) \<noteq> 0"
    and "encryptedPlayer2Choice (game c) \<noteq> euint32_zero \<Longrightarrow>
           player1 (game c) \<noteq> player2 (game c)"
  using assms unfolding game_inv_def by blast+

lemma game_inv_completed:
  assumes "game_inv c"
  shows "(status (game c) = Completed) =
           (encryptedPlayer1Choice (game c) \<noteq> euint32_zero \<and>
            encryptedPlayer2Choice (game c) \<noteq> euint32_zero)"
  using assms unfolding game_inv_def by blast

lemma game_inv_winner: "game_inv c \<Longrightarrow> winner (game c) = 0"
  unfolding game_inv_def by blast

lemma game_inv_public:
  assumes "game_inv c"
  shows "publiclyDecryptable c =
        (if status (game c) = Completed
         then [HandleBool (encryptedP1Wins (game c)), HandleBool (encryptedIsTie (game c))]
         else [])"
  using assms unfolding game_inv_def by blast

lemma game_inv_results:
  assumes "game_inv c" "status (game c) = Completed"
  shows "encryptedIsTie (game c) =
           FHE_eq (encryptedPlayer1Choice (game c)) (encryptedPlayer2Choice (game c))"
    and "encryptedP1Wins (game c) =
           FHE_or (FHE_or (p1WinsRock (game c)) (p1WinsPaper (game c)))
                  (p1WinsScissors (game c))"
  using assms unfolding game_inv_def p1WinsRock_def p1WinsPaper_def p1WinsScissors_def
  by blast+

subsection \<open>Slots are written once; a completed game is final\<close>

lemma choices_afterStore:
  "encryptedPlayer1Choice (game (afterStore sender c)) = encryptedPlayer1Choice (game c)"
  "encryptedPlayer2Choice (game (afterStore sender c)) = encryptedPlayer2Choice (game c)"
  by (simp_all add: game_afterStore game_computeWinnerFHE)

lemma completed_is_final:
  assumes "game_inv c" "status (game c) = Completed"
  shows "step fe tx c = c"
proof -
  from assms have p1: "player1 (game c) \<noteq> 0"
    by (intro game_inv_player1(1)) simp_all
  from assms have p2: "player2 (game c) \<noteq> 0"
    unfolding game_inv_def by auto
  obtain sender cl where tx: "tx = (sender, cl)" by (cases tx)
  show ?thesis
  proof (cases cl)
    case StartGame
    with p1 tx show ?thesis by (simp add: step_def startGame_cases)
  next
    case JoinGame
    with p1 p2 tx show ?thesis by (simp add: step_def joinGame_def)
  next
    case (SubmitEncryptedChoice h p)
    with p1 assms(2) tx show ?thesis by (simp add: step_def submitEncryptedChoice_def)
  qed
qed

lemma slot1_kept:
  assumes "game_inv c" "encryptedPlayer1Choice (game c) \<noteq> euint32_zero"
  shows "encryptedPlayer1Choice (game (step fe tx c)) = encryptedPlayer1Choice (game c)"
proof -
  from assms have p1: "player1 (game c) \<noteq> 0"
    by (intro game_inv_player1(2))
  obtain sender cl where tx: "tx = (sender, cl)" by (cases tx)
  show ?thesis
  proof (cases cl)
    case StartGame
    with p1 tx show ?thesis by (simp add: step_def startGame_cases)
  next
    case JoinGame
    with tx show ?thesis by (simp add: step_def joinGame_def emit_def)
  next
    case (SubmitEncryptedChoice h p)
    show ?thesis
    proof (cases "submitEncryptedChoice fe sender h p c")
      case (Inl e)
      with tx SubmitEncryptedChoice show ?thesis by (simp add: step_def)
    next
      case (Inr c')
      from Inr assms(2) have "encryptedPlayer1Choice (game c') = encryptedPlayer1Choice (game c)"
        by (elim submit_Inr) (auto simp: choices_afterStore FHE_allowThis_def)
      with Inr tx SubmitEncryptedChoice show ?thesis by (simp add: step_def)
    qed
  qed
qed

lemma slot2_kept:
  assumes "game_inv c" "encryptedPlayer2Choice (game c) \<noteq> euint32_zero"
  shows "encryptedPlayer2Choice (game (step fe tx c)) = encryptedPlayer2Choice (game c)"
proof -
  from assms have p1: "player1 (game c) \<noteq> 0"
    by (intro game_inv_player1(3))
  obtain sender cl where tx: "tx = (sender, cl)" by (cases tx)
  show ?thesis
  proof (cases cl)
    case StartGame
    with p1 tx show ?thesis by (simp add: step_def startGame_cases)
  next
    case JoinGame
    with tx show ?thesis by (simp add: step_def joinGame_def emit_def)
  next
    case (SubmitEncryptedChoice h p)
    show ?thesis
    proof (cases "submitEncryptedChoice fe sender h p c")
      case (Inl e)
      with tx SubmitEncryptedChoice show ?thesis by (simp add: step_def)
    next
      case (Inr c')
      from Inr assms(2) have "encryptedPlayer2Choice (game c') = encryptedPlayer2Choice (game c)"
        by (elim submit_Inr) (auto simp: choices_afterStore FHE_allowThis_def)
      with Inr tx SubmitEncryptedChoice show ?thesis by (simp add: step_def)
    qed
  qed
qed

lemma submit_to_set_slot:
  assumes "game_inv c" "sender = player1 (game c) \<or> sender = player2 (game c)"
    "seat_slot sender (game c) \<noteq> euint32_zero"
  shows "submitEncryptedChoice fe sender h p c =
           Inl (if status (game c) = Completed then Game_not_in_valid_state
                else if fe h p sender = None then Input_rejected
                else if sender = player1 (game c) then Player_1_already_submitted_choice
                else Player_2_already_submitted_choice)"
proof (cases "sender = player1 (game c)")
  case True
  with assms(3) have s: "encryptedPlayer1Choice (game c) \<noteq> euint32_zero"
    by (simp add: seat_slot_def)
  with assms(1) have "player1 (game c) \<noteq> 0" by (intro game_inv_player1(2))
  with True s show ?thesis
    by (cases "status (game c)"; cases "fe h p (player1 (game c))")
       (simp_all add: submitEncryptedChoice_def)
next
  case False
  with assms(2) have p2: "sender = player2 (game c)" by simp
  from False assms(3) have s: "encryptedPlayer2Choice (game c) \<noteq> euint32_zero"
    by (simp add: seat_slot_def)
  with assms(1) have "player1 (game c) \<noteq> 0" by (intro game_inv_player1(3))
  with False p2 s show ?thesis
    by (cases "status (game c)"; cases "fe h p (player2 (game c))")
       (simp_all add: submitEncryptedChoice_def)
qed

subsection \<open>Events and declassification\<close>

lemma emitted_startGame:
  "startGame sender c = Inr c' \<Longrightarrow> emitted c' = emitted c @ [GameStarted sender]"
  by (auto simp: startGame_cases split: if_splits)

lemma emitted_joinGame:
  "joinGame sender c = Inr c' \<Longrightarrow> emitted c' = emitted c @ [GameJoined sender]"
  by (auto simp: joinGame_def emit_def split: if_splits)

lemma emitted_submit:
  assumes "submitEncryptedChoice fe sender h p c = Inr c'"
  shows "emitted c' = emitted c @ [EncryptedChoiceSubmitted sender]"
  using assms by (elim submit_Inr) (auto simp: emitted_afterStore FHE_allowThis_def)

lemma no_GameCompleted_step:
  assumes "filter isGameCompleted (emitted c) = []"
  shows "filter isGameCompleted (emitted (step fe tx c)) = []"
proof (cases "exec fe tx c")
  case (Inl e)
  with assms show ?thesis by (simp add: step_def)
next
  case (Inr c')
  obtain sender cl where tx: "tx = (sender, cl)" by (cases tx)
  have "filter isGameCompleted (emitted c') = []"
  proof (cases cl)
    case StartGame
    with Inr tx assms show ?thesis by (simp add: emitted_startGame)
  next
    case JoinGame
    with Inr tx assms show ?thesis by (simp add: emitted_joinGame)
  next
    case (SubmitEncryptedChoice h p)
    with Inr tx assms show ?thesis by (simp add: emitted_submit)
  qed
  with Inr show ?thesis by (simp add: step_def)
qed

lemma no_GameCompleted_run:
  "filter isGameCompleted (emitted c) = [] \<Longrightarrow>
   filter isGameCompleted (emitted (run fe c txs)) = []"
  by (induction txs arbitrary: c) (simp_all add: no_GameCompleted_step)

lemma publiclyDecryptable_step:
  assumes "game_inv c" "fst tx \<noteq> 0"
  shows "publiclyDecryptable (step fe tx c) =
           publiclyDecryptable c @
             (if status (game c) \<noteq> Completed \<and> status (game (step fe tx c)) = Completed
              then [HandleBool (encryptedP1Wins (game (step fe tx c))),
                    HandleBool (encryptedIsTie (game (step fe tx c)))]
              else [])"
proof (cases "status (game c) = Completed")
  case True
  with assms(1) have "step fe tx c = c" by (rule completed_is_final)
  with True show ?thesis by simp
next
  case False
  from assms have "game_inv (step fe tx c)" by (rule game_inv_step)
  from game_inv_public [OF this] game_inv_public [OF assms(1)] False
  show ?thesis by simp
qed

lemma not_declassified:
  assumes "game_inv c"
  shows "distinct (publiclyDecryptable c)"
    and "Handle32 x \<notin> set (publiclyDecryptable c)"
    and "HandleBool (FHE_and p q) \<notin> set (publiclyDecryptable c)"
proof -
  show "distinct (publiclyDecryptable c)"
  proof (cases "status (game c) = Completed")
    case True
    with game_inv_public [OF assms] game_inv_results [OF assms] show ?thesis by simp
  next
    case False
    with game_inv_public [OF assms] show ?thesis by simp
  qed
  show "Handle32 x \<notin> set (publiclyDecryptable c)"
    using game_inv_public [OF assms] by simp
  show "HandleBool (FHE_and p q) \<notin> set (publiclyDecryptable c)"
  proof (cases "status (game c) = Completed")
    case True
    with game_inv_public [OF assms] game_inv_results [OF assms] show ?thesis by simp
  next
    case False
    with game_inv_public [OF assms] show ?thesis by simp
  qed
qed

lemma submit_slots:
  assumes "submitEncryptedChoice fe sender h p c = Inr c'"
    and "fe h p sender = Some e"
  shows "encryptedPlayer1Choice (game c') =
           (if sender = player1 (game c) then e else encryptedPlayer1Choice (game c))"
    and "encryptedPlayer2Choice (game c') =
           (if sender = player1 (game c) then encryptedPlayer2Choice (game c) else e)"
  using assms
  by (elim submit_Inr; auto simp: choices_afterStore FHE_allowThis_def)+

lemma revealed_results:
  assumes "game_inv c"
  shows "map (reveal pt) (publiclyDecryptable c) =
           (if status (game c) = Completed
            then [PlainBool (fst (outcome pt (game c))), PlainBool (snd (outcome pt (game c)))]
            else [])"
proof (cases "status (game c) = Completed")
  case True
  from game_inv_public [OF assms] True
  have "publiclyDecryptable c =
          [HandleBool (encryptedP1Wins (game c)), HandleBool (encryptedIsTie (game c))]"
    by simp
  then have "map (reveal pt) (publiclyDecryptable c) =
          [PlainBool (decryptBool pt (encryptedP1Wins (game c))),
           PlainBool (decryptBool pt (encryptedIsTie (game c)))]"
    by simp
  also have "decryptBool pt (encryptedP1Wins (game c)) = fst (outcome pt (game c))"
    by (simp only: game_inv_results(2) [OF assms True] winner_formula outcome_def
          p1_beats_def fst_conv)
  also have "decryptBool pt (encryptedIsTie (game c)) = snd (outcome pt (game c))"
    by (simp only: game_inv_results(1) [OF assms True] tie_formula outcome_def snd_conv)
  finally show ?thesis using True by simp
next
  case False
  with game_inv_public [OF assms] show ?thesis by simp
qed

lemma publicView_outcome:
  assumes "game_inv c"
    and "status (game c) = Completed \<longrightarrow> outcome pt (game c) = outcome pt' (game c)"
  shows "publicView pt c = publicView pt' c"
proof -
  have "map (reveal pt) (publiclyDecryptable c) = map (reveal pt') (publiclyDecryptable c)"
    unfolding revealed_results [OF assms(1)] using assms(2) by simp
  then show ?thesis by (simp add: publicView_def)
qed

section \<open>The claims\<close>

subsection \<open>C1: the winner evaluation\<close>

text \<open>
  C1. Take any state \<open>c\<close> the contract reaches and a \<open>submitEncryptedChoice\<close> call
  that succeeds there, in which the library admits the caller's input as the
  encrypted integer \<open>submitted\<close>. The two choices of the game are then \<open>choiceA\<close>,
  the submitted one if the caller is player 1 and otherwise the one already in the
  first slot of \<open>c\<close>, and \<open>choiceB\<close>, likewise for player 2. If both are set, this is
  the second submit: the call leaves the game \<open>Completed\<close>, the two slots hold
  exactly \<open>choiceA\<close> and \<open>choiceB\<close>, and for their plaintexts \<open>a\<close> and \<open>b\<close>, each
  one of Rock = 0, Paper = 1, Scissors = 2, the stored \<open>encryptedIsTie\<close> decrypts to
  true exactly when \<open>a = b\<close>, the stored \<open>encryptedP1Wins\<close> decrypts to true exactly
  for the pairs (Rock, Scissors), (Paper, Rock), (Scissors, Paper), and exactly one of
  "player 1 wins", "tie", "neither" holds.
\<close>

theorem C1_winner_evaluation:
  assumes "senders_ok txs" and "c = run fromExternal deployed txs" and "sender \<noteq> 0"
    and "submitEncryptedChoice fromExternal sender inputEuint32 inputProof c = Inr c'"
    and "fromExternal inputEuint32 inputProof sender = Some submitted"
    and "choiceA = (if sender = player1 (game c) then submitted
                    else encryptedPlayer1Choice (game c))"
    and "choiceB = (if sender = player1 (game c) then encryptedPlayer2Choice (game c)
                    else submitted)"
    and "choiceA \<noteq> euint32_zero" and "choiceB \<noteq> euint32_zero"
    and "a = decrypt32 pt choiceA" and "b = decrypt32 pt choiceB"
    and "a \<in> {ROCK, PAPER, SCISSORS}" and "b \<in> {ROCK, PAPER, SCISSORS}"
    and "tie = decryptBool pt (encryptedIsTie (game c'))"
    and "aWins = decryptBool pt (encryptedP1Wins (game c'))"
  shows "status (game c') = Completed \<and>
         encryptedPlayer1Choice (game c') = choiceA \<and>
         encryptedPlayer2Choice (game c') = choiceB \<and>
         tie = (a = b) \<and>
         aWins = ((a, b) \<in> {(ROCK, SCISSORS), (PAPER, ROCK), (SCISSORS, PAPER)}) \<and>
         (if aWins then 1 else 0) + (if tie then 1 else 0) +
           (if \<not> aWins \<and> \<not> tie then 1 else 0) = (1 :: nat)"
proof -
  have i: "game_inv c"
    using assms(1,2) by (simp add: game_inv_reachable)
  have sA: "encryptedPlayer1Choice (game c') = choiceA"
    unfolding assms(6) by (rule submit_slots(1) [OF assms(4,5)])
  have sB: "encryptedPlayer2Choice (game c') = choiceB"
    unfolding assms(7) by (rule submit_slots(2) [OF assms(4,5)])
  from i assms(3,4) have "game_inv c'" by (rule game_inv_submit)
  then have compl: "status (game c') = Completed"
    using assms(8,9) by (simp add: game_inv_completed sA sB)
  note r = submit_completes [OF assms(4) compl]
  have ab: "decrypt32 pt (encryptedPlayer1Choice (game c')) = a"
           "decrypt32 pt (encryptedPlayer2Choice (game c')) = b"
    by (simp_all only: sA sB assms(10,11))
  have t: "decryptBool pt (encryptedIsTie (game c')) = (a = b)"
    by (simp only: r tie_formula ab)
  have w: "decryptBool pt (encryptedP1Wins (game c')) =
             (a = ROCK \<and> b = SCISSORS \<or> a = PAPER \<and> b = ROCK \<or> a = SCISSORS \<and> b = PAPER)"
    by (simp only: r winner_formula ab)
  have tie: "tie = (a = b)"
    by (simp only: assms(14) t)
  have wins: "aWins = ((a, b) \<in> {(ROCK, SCISSORS), (PAPER, ROCK), (SCISSORS, PAPER)})"
    by (simp only: assms(15) w insert_iff empty_iff prod.inject simp_thms)
  have "\<not> (aWins \<and> tie)"
    unfolding assms(14,15) t w by (rule exactly_one)
  then have "(if aWins then 1 else 0) + (if tie then 1 else 0) +
           (if \<not> aWins \<and> \<not> tie then 1 else 0) = (1 :: nat)"
    by (cases aWins; cases tie) simp_all
  with compl sA sB tie wins show ?thesis by (intro conjI)
qed

theorem C1_winner_evaluation_witness:
  "senders_ok [(1, StartGame), (2, JoinGame), (1, SubmitEncryptedChoice 10 [])] \<and>
   submitEncryptedChoice admit_all 2 20 []
       (run admit_all deployed
          [(1, StartGame), (2, JoinGame), (1, SubmitEncryptedChoice 10 [])])
     = Inr (run admit_all deployed
          [(1, StartGame), (2, JoinGame), (1, SubmitEncryptedChoice 10 []),
           (2, SubmitEncryptedChoice 20 [])]) \<and>
   admit_all 20 [] 2 = Some (Ciphertext32 20) \<and>
   encryptedPlayer1Choice (game (run admit_all deployed
          [(1, StartGame), (2, JoinGame), (1, SubmitEncryptedChoice 10 [])])) = Ciphertext32 10 \<and>
   ROCK \<in> {ROCK, PAPER, SCISSORS} \<and> SCISSORS \<in> {ROCK, PAPER, SCISSORS} \<and>
   status (game (run admit_all deployed
          [(1, StartGame), (2, JoinGame), (1, SubmitEncryptedChoice 10 []),
           (2, SubmitEncryptedChoice 20 [])])) = Completed \<and>
   decryptBool (\<lambda>h. if h = 10 then ROCK else SCISSORS)
     (encryptedIsTie (game (run admit_all deployed
          [(1, StartGame), (2, JoinGame), (1, SubmitEncryptedChoice 10 []),
           (2, SubmitEncryptedChoice 20 [])]))) = False \<and>
   decryptBool (\<lambda>h. if h = 10 then ROCK else SCISSORS)
     (encryptedP1Wins (game (run admit_all deployed
          [(1, StartGame), (2, JoinGame), (1, SubmitEncryptedChoice 10 []),
           (2, SubmitEncryptedChoice 20 [])]))) = True"
proof -
  let ?txs = "[(1, StartGame), (2, JoinGame), (1, SubmitEncryptedChoice 10 [])]
                :: (address \<times> call) list"
  let ?c3 = "run admit_all deployed ?txs"
  let ?c4 = "run admit_all deployed
          [(1, StartGame), (2, JoinGame), (1, SubmitEncryptedChoice 10 []),
           (2, SubmitEncryptedChoice 20 [])]"
  let ?pt = "\<lambda>h::bytes32. if h = 10 then ROCK else SCISSORS"
  have h1: "senders_ok ?txs" by (simp add: senders_ok_def)
  have h3: "(2 :: address) \<noteq> 0" by simp
  have h4: "submitEncryptedChoice admit_all 2 20 [] ?c3 = Inr ?c4"
    unfolding example_one_choice example_completed
    by (simp add: submitEncryptedChoice_def afterStore_def computeWinnerFHE_def emit_def
          FHE_allowThis_def FHE_makePubliclyDecryptable_def admit_all_def Let_def)
  have h5: "admit_all 20 [] 2 = Some (Ciphertext32 20)"
    by (simp add: admit_all_def)
  have s1: "encryptedPlayer1Choice (game ?c3) = Ciphertext32 10"
    unfolding example_one_choice by simp
  have h6: "Ciphertext32 10 =
      (if 2 = player1 (game ?c3) then Ciphertext32 20 else encryptedPlayer1Choice (game ?c3))"
    unfolding example_one_choice by simp
  have h7: "Ciphertext32 20 =
      (if 2 = player1 (game ?c3) then encryptedPlayer2Choice (game ?c3) else Ciphertext32 20)"
    unfolding example_one_choice by simp
  have h8: "Ciphertext32 10 \<noteq> euint32_zero" and h9: "Ciphertext32 20 \<noteq> euint32_zero"
    by simp_all
  have h10: "ROCK = decrypt32 ?pt (Ciphertext32 10)" by simp
  have h11: "SCISSORS = decrypt32 ?pt (Ciphertext32 20)" by simp
  have h12: "ROCK \<in> {ROCK, PAPER, SCISSORS}" and h13: "SCISSORS \<in> {ROCK, PAPER, SCISSORS}"
    by simp_all
  from C1_winner_evaluation [OF h1 refl h3 h4 h5 h6 h7 h8 h9 h10 h11 h12 h13 refl refl]
  have "status (game ?c4) = Completed \<and>
        decryptBool ?pt (encryptedIsTie (game ?c4)) = False \<and>
        decryptBool ?pt (encryptedP1Wins (game ?c4)) = True"
    by (simp add: ROCK_def SCISSORS_def PAPER_def)
  with h1 h4 h5 s1 h12 h13 show ?thesis by blast
qed

subsection \<open>C2: starting a game\<close>

text \<open>
  C2, as the claim states it: whenever a game exists and is \<open>Completed\<close>,
  \<open>startGame\<close> succeeds and replaces it. The contract does otherwise: after a
  complete game between players 1 and 2, a \<open>startGame\<close> from address 3 reverts with
  "Game already started".
\<close>

theorem C2_counterexample:
  "status (game (run admit_all deployed
       [(1, StartGame), (2, JoinGame), (1, SubmitEncryptedChoice 10 []),
        (2, SubmitEncryptedChoice 20 [])])) = Completed \<and>
   startGame 3 (run admit_all deployed
       [(1, StartGame), (2, JoinGame), (1, SubmitEncryptedChoice 10 []),
        (2, SubmitEncryptedChoice 20 [])]) = Inl Game_already_started"
  unfolding example_completed by (simp add: startGame_cases)

text \<open>
  C2, amended: \<open>startGame\<close> succeeds if and only if no game has been started yet
  (\<open>player1\<close> is the zero address); it then replaces the Game with a fresh record in
  which \<open>player1\<close> is the caller, \<open>player2\<close> is unset, both choice slots are the
  unsubmitted sentinel and the status is \<open>Waiting\<close>. It fails, with
  "Game already started" (AlreadyInProgress), if and only if a game exists, whatever
  its status; in particular in every reachable \<open>Completed\<close> state.
\<close>

theorem C2_start_only_before_first_game:
  "(startGame sender c = Inr c') =
     (player1 (game c) = 0 \<and>
      c' = c\<lparr>game := \<lparr> player1 = sender, player2 = 0,
                        encryptedPlayer1Choice = euint32_zero,
                        encryptedPlayer2Choice = euint32_zero,
                        encryptedP1Wins = ebool_zero, encryptedIsTie = ebool_zero,
                        winner = 0, status = Waiting \<rparr>,
             emitted := emitted c @ [GameStarted sender]\<rparr>) \<and>
   (startGame sender c = Inl e) = (player1 (game c) \<noteq> 0 \<and> e = Game_already_started) \<and>
   kind Game_already_started = Some AlreadyInProgress \<and>
   (senders_ok txs \<and> status (game (run fromExternal deployed txs)) = Completed \<longrightarrow>
      startGame sender (run fromExternal deployed txs) = Inl Game_already_started)"
proof -
  have a: "(startGame sender c = Inr c') =
     (player1 (game c) = 0 \<and>
      c' = c\<lparr>game := \<lparr> player1 = sender, player2 = 0,
                        encryptedPlayer1Choice = euint32_zero,
                        encryptedPlayer2Choice = euint32_zero,
                        encryptedP1Wins = ebool_zero, encryptedIsTie = ebool_zero,
                        winner = 0, status = Waiting \<rparr>,
             emitted := emitted c @ [GameStarted sender]\<rparr>)"
    by (auto simp: startGame_cases)
  have b: "(startGame sender c = Inl e) = (player1 (game c) \<noteq> 0 \<and> e = Game_already_started)"
    by (auto simp: startGame_cases)
  have c: "startGame sender (run fromExternal deployed txs) = Inl Game_already_started"
    if "senders_ok txs" "status (game (run fromExternal deployed txs)) = Completed"
  proof -
    have "game_inv (run fromExternal deployed txs)"
      using that(1) by (rule game_inv_reachable)
    then have "player1 (game (run fromExternal deployed txs)) \<noteq> 0"
      using that(2) by (intro game_inv_player1(1)) simp_all
    then show ?thesis by (simp add: startGame_cases)
  qed
  from a b c show ?thesis by simp
qed

theorem C2_start_only_before_first_game_witness:
  "senders_ok [(1, StartGame), (2, JoinGame), (1, SubmitEncryptedChoice 10 []),
        (2, SubmitEncryptedChoice 20 [])] \<and>
   status (game (run admit_all deployed
       [(1, StartGame), (2, JoinGame), (1, SubmitEncryptedChoice 10 []),
        (2, SubmitEncryptedChoice 20 [])])) = Completed \<and>
   startGame 1 (run admit_all deployed
       [(1, StartGame), (2, JoinGame), (1, SubmitEncryptedChoice 10 []),
        (2, SubmitEncryptedChoice 20 [])]) = Inl Game_already_started \<and>
   startGame 1 deployed = Inr (run admit_all deployed [(1, StartGame)])"
proof -
  let ?txs = "[(1, StartGame), (2, JoinGame), (1, SubmitEncryptedChoice 10 []),
        (2, SubmitEncryptedChoice 20 [])] :: (address \<times> call) list"
  have h1: "senders_ok ?txs" by (rule senders_ok_example)
  have h2: "status (game (run admit_all deployed ?txs)) = Completed"
    unfolding example_completed by simp
  have h3: "player1 (game deployed) = 0" by (simp add: deployed_def)
  have h4: "run admit_all deployed [(1, StartGame)] =
      deployed\<lparr>game := \<lparr> player1 = 1, player2 = 0,
                        encryptedPlayer1Choice = euint32_zero,
                        encryptedPlayer2Choice = euint32_zero,
                        encryptedP1Wins = ebool_zero, encryptedIsTie = ebool_zero,
                        winner = 0, status = Waiting \<rparr>,
             emitted := emitted deployed @ [GameStarted 1]\<rparr>"
    unfolding example_waiting by (simp add: deployed_def)
  note t = C2_start_only_before_first_game
  from t [of 1 deployed "run admit_all deployed [(1, StartGame)]" _ "[]" admit_all] h3 h4
  have "startGame 1 deployed = Inr (run admit_all deployed [(1, StartGame)])"
    by blast
  moreover from t [of 1 deployed deployed Game_already_started ?txs admit_all] h1 h2
  have "startGame 1 (run admit_all deployed ?txs) = Inl Game_already_started"
    by blast
  ultimately show ?thesis using h1 h2 by blast
qed


subsection \<open>C3: completed if and only if both slots are set\<close>

text \<open>
  C3. In every state the contract reaches through any sequence of calls (none sent
  from the zero address), the status is \<open>Completed\<close> if and only if both choice
  slots are set, that is, differ from the zero handle; so it is never \<open>Completed\<close>
  with exactly one slot set. And a successful submit after which both slots are set
  started from a game that was not \<open>Completed\<close> and leaves it \<open>Completed\<close>: the
  transition happens within that call.
\<close>

theorem C3_completed_iff_both_set:
  assumes "senders_ok txs" and "c = run fromExternal deployed txs"
  shows "(status (game c) = Completed) =
           (encryptedPlayer1Choice (game c) \<noteq> euint32_zero \<and>
            encryptedPlayer2Choice (game c) \<noteq> euint32_zero) \<and>
         (\<forall>sender inputEuint32 inputProof c'.
            sender \<noteq> 0 \<and>
            submitEncryptedChoice fromExternal sender inputEuint32 inputProof c = Inr c' \<and>
            encryptedPlayer1Choice (game c') \<noteq> euint32_zero \<and>
            encryptedPlayer2Choice (game c') \<noteq> euint32_zero
            \<longrightarrow> status (game c) \<noteq> Completed \<and> status (game c') = Completed)"
proof -
  have i: "game_inv c"
    using assms by (simp add: game_inv_reachable)
  have "status (game c) \<noteq> Completed \<and> status (game c') = Completed"
    if "sender \<noteq> 0" "submitEncryptedChoice fromExternal sender h p c = Inr c'"
      "encryptedPlayer1Choice (game c') \<noteq> euint32_zero"
      "encryptedPlayer2Choice (game c') \<noteq> euint32_zero" for sender h p c'
  proof -
    from i that(1,2) have "game_inv c'" by (rule game_inv_submit)
    with that(3,4) have "status (game c') = Completed"
      by (simp add: game_inv_completed)
    moreover from that(2) have "status (game c) \<noteq> Completed"
      by (elim submit_Inr) auto
    ultimately show ?thesis by simp
  qed
  with game_inv_completed [OF i] show ?thesis by blast
qed

theorem C3_completed_iff_both_set_witness:
  "senders_ok [(1, StartGame), (2, JoinGame), (1, SubmitEncryptedChoice 10 [])] \<and>
   encryptedPlayer1Choice (game (run admit_all deployed
      [(1, StartGame), (2, JoinGame), (1, SubmitEncryptedChoice 10 [])])) \<noteq> euint32_zero \<and>
   encryptedPlayer2Choice (game (run admit_all deployed
      [(1, StartGame), (2, JoinGame), (1, SubmitEncryptedChoice 10 [])])) = euint32_zero \<and>
   status (game (run admit_all deployed
      [(1, StartGame), (2, JoinGame), (1, SubmitEncryptedChoice 10 [])])) \<noteq> Completed \<and>
   submitEncryptedChoice admit_all 2 20 []
       (run admit_all deployed
          [(1, StartGame), (2, JoinGame), (1, SubmitEncryptedChoice 10 [])])
     = Inr (run admit_all deployed
          [(1, StartGame), (2, JoinGame), (1, SubmitEncryptedChoice 10 []),
           (2, SubmitEncryptedChoice 20 [])]) \<and>
   status (game (run admit_all deployed
          [(1, StartGame), (2, JoinGame), (1, SubmitEncryptedChoice 10 []),
           (2, SubmitEncryptedChoice 20 [])])) = Completed"
proof -
  let ?txs = "[(1, StartGame), (2, JoinGame), (1, SubmitEncryptedChoice 10 [])]
                :: (address \<times> call) list"
  let ?c3 = "run admit_all deployed ?txs"
  let ?c4 = "run admit_all deployed
          [(1, StartGame), (2, JoinGame), (1, SubmitEncryptedChoice 10 []),
           (2, SubmitEncryptedChoice 20 [])]"
  have h1: "senders_ok ?txs" by (simp add: senders_ok_def)
  have h2: "encryptedPlayer1Choice (game ?c3) \<noteq> euint32_zero"
    unfolding example_one_choice by simp
  have h3: "encryptedPlayer2Choice (game ?c3) = euint32_zero"
    unfolding example_one_choice by simp
  have h4: "submitEncryptedChoice admit_all 2 20 [] ?c3 = Inr ?c4"
    unfolding example_one_choice example_completed
    by (simp add: submitEncryptedChoice_def afterStore_def computeWinnerFHE_def emit_def
          FHE_allowThis_def FHE_makePubliclyDecryptable_def admit_all_def Let_def)
  have h5: "encryptedPlayer1Choice (game ?c4) \<noteq> euint32_zero"
    unfolding example_completed by simp
  have h6: "encryptedPlayer2Choice (game ?c4) \<noteq> euint32_zero"
    unfolding example_completed by simp
  have h7: "(2 :: address) \<noteq> 0" by simp
  note t = C3_completed_iff_both_set [OF h1 refl, of admit_all]
  from t h3 have "status (game ?c3) \<noteq> Completed" by simp
  moreover from t h4 h5 h6 h7 have "status (game ?c4) = Completed" by blast
  ultimately show ?thesis using h1 h2 h3 h4 by blast
qed

subsection \<open>C4: one write per slot\<close>

text \<open>
  C4, as the claim states it: a second submit from the same seat always fails with
  DuplicateSubmission. Once the game is \<open>Completed\<close> the contract checks the status
  first: player 1, whose slot holds the ciphertext 10, submits again and the call
  reverts with "Game not in valid state", which is not a DuplicateSubmission.
\<close>

theorem C4_counterexample:
  "player1 (game (run admit_all deployed
       [(1, StartGame), (2, JoinGame), (1, SubmitEncryptedChoice 10 []),
        (2, SubmitEncryptedChoice 20 [])])) = 1 \<and>
   seat_slot 1 (game (run admit_all deployed
       [(1, StartGame), (2, JoinGame), (1, SubmitEncryptedChoice 10 []),
        (2, SubmitEncryptedChoice 20 [])])) = Ciphertext32 10 \<and>
   submitEncryptedChoice admit_all 1 11 [] (run admit_all deployed
       [(1, StartGame), (2, JoinGame), (1, SubmitEncryptedChoice 10 []),
        (2, SubmitEncryptedChoice 20 [])]) = Inl Game_not_in_valid_state \<and>
   kind Game_not_in_valid_state \<noteq> Some DuplicateSubmission"
  unfolding example_completed by (simp add: submitEncryptedChoice_def seat_slot_def)

text \<open>
  C4, amended: in every reachable state, a slot that is set (differs from the zero
  handle) keeps its value through any further call, so each slot goes from unset to
  set at most once. A submit from a seat (player 1 for the first slot, player 2 for
  the second) whose slot is set always fails and leaves the state unchanged; the
  failure is "Game not in valid state" when the game is \<open>Completed\<close>, the
  library's rejection when the input is not admitted, and otherwise
  "Player 1/2 already submitted choice" (DuplicateSubmission).
\<close>

theorem C4_single_writer_per_slot:
  assumes "senders_ok txs" and "c = run fromExternal deployed txs"
  shows "(encryptedPlayer1Choice (game c) \<noteq> euint32_zero \<longrightarrow>
            encryptedPlayer1Choice (game (step fromExternal tx c)) =
              encryptedPlayer1Choice (game c)) \<and>
         (encryptedPlayer2Choice (game c) \<noteq> euint32_zero \<longrightarrow>
            encryptedPlayer2Choice (game (step fromExternal tx c)) =
              encryptedPlayer2Choice (game c)) \<and>
         ((sender = player1 (game c) \<or> sender = player2 (game c)) \<and>
          seat_slot sender (game c) \<noteq> euint32_zero \<longrightarrow>
            submitEncryptedChoice fromExternal sender inputEuint32 inputProof c =
              Inl (if status (game c) = Completed then Game_not_in_valid_state
                   else if fromExternal inputEuint32 inputProof sender = None then Input_rejected
                   else if sender = player1 (game c) then Player_1_already_submitted_choice
                   else Player_2_already_submitted_choice) \<and>
            step fromExternal (sender, SubmitEncryptedChoice inputEuint32 inputProof) c = c) \<and>
         kind Player_1_already_submitted_choice = Some DuplicateSubmission \<and>
         kind Player_2_already_submitted_choice = Some DuplicateSubmission"
proof -
  have i: "game_inv c"
    using assms by (simp add: game_inv_reachable)
  have "step fromExternal (sender, SubmitEncryptedChoice inputEuint32 inputProof) c = c"
    if "submitEncryptedChoice fromExternal sender inputEuint32 inputProof c = Inl e" for e
    using that by (simp add: step_def)
  with slot1_kept [OF i] slot2_kept [OF i] submit_to_set_slot [OF i]
  show ?thesis by simp
qed

theorem C4_single_writer_per_slot_witness:
  "senders_ok [(1, StartGame), (2, JoinGame), (1, SubmitEncryptedChoice 10 [])] \<and>
   player1 (game (run admit_all deployed
       [(1, StartGame), (2, JoinGame), (1, SubmitEncryptedChoice 10 [])])) = 1 \<and>
   seat_slot 1 (game (run admit_all deployed
       [(1, StartGame), (2, JoinGame), (1, SubmitEncryptedChoice 10 [])])) = Ciphertext32 10 \<and>
   submitEncryptedChoice admit_all 1 11 [] (run admit_all deployed
       [(1, StartGame), (2, JoinGame), (1, SubmitEncryptedChoice 10 [])])
     = Inl Player_1_already_submitted_choice \<and>
   encryptedPlayer1Choice (game (step admit_all (1, SubmitEncryptedChoice 11 [])
     (run admit_all deployed
       [(1, StartGame), (2, JoinGame), (1, SubmitEncryptedChoice 10 [])]))) = Ciphertext32 10"
proof -
  let ?txs = "[(1, StartGame), (2, JoinGame), (1, SubmitEncryptedChoice 10 [])]
                :: (address \<times> call) list"
  let ?c3 = "run admit_all deployed ?txs"
  have h1: "senders_ok ?txs" by (simp add: senders_ok_def)
  have h2: "player1 (game ?c3) = 1"
    unfolding example_one_choice by simp
  have h3: "seat_slot 1 (game ?c3) = Ciphertext32 10"
    unfolding example_one_choice by (simp add: seat_slot_def)
  have h4: "encryptedPlayer1Choice (game ?c3) = Ciphertext32 10"
    unfolding example_one_choice by simp
  have h5: "status (game ?c3) = InProgress"
    unfolding example_one_choice by simp
  have h6: "admit_all 11 [] 1 = Some (Ciphertext32 11)"
    by (simp add: admit_all_def)
  note t = C4_single_writer_per_slot [OF h1 refl,
      of admit_all "(1, SubmitEncryptedChoice 11 [])" 1 11 "[]"]
  from t h2 h3 h5 h6
  have "submitEncryptedChoice admit_all 1 11 [] ?c3 = Inl Player_1_already_submitted_choice"
    by simp
  moreover from t h4
  have "encryptedPlayer1Choice (game (step admit_all (1, SubmitEncryptedChoice 11 []) ?c3))
          = Ciphertext32 10"
    by simp
  ultimately show ?thesis using h1 h2 h3 by blast
qed

subsection \<open>C5: joining\<close>

text \<open>
  C5. \<open>joinGame\<close> succeeds if and only if a game exists (\<open>player1\<close> is not the zero
  address), its status is \<open>Waiting\<close>, \<open>player2\<close> is unset and the caller is not
  \<open>player1\<close>; it then sets \<open>player2\<close> to the caller and the status to
  \<open>InProgress\<close> (and emits \<open>GameJoined\<close>). Every failure leaves the state unchanged
  and is of one of three kinds, each reported only where its condition holds: NoGame
  where no game exists, SelfJoin where the caller is \<open>player1\<close>, SeatTaken where
  \<open>player2\<close> is set or the status is not \<open>Waiting\<close>. Where two conditions hold at
  once the contract's order of checks decides, and the last three conjuncts say exactly
  when each kind is reported: NoGame exactly when no game exists; SeatTaken for a game
  that has two players, also when the caller is \<open>player1\<close>; SelfJoin when the caller is
  \<open>player1\<close> and the second seat is free.
\<close>

theorem C5_join:
  "(\<exists>c'. joinGame sender c = Inr c') =
     (player1 (game c) \<noteq> 0 \<and> status (game c) = Waiting \<and> player2 (game c) = 0 \<and>
      sender \<noteq> player1 (game c)) \<and>
   (\<forall>c'. joinGame sender c = Inr c' \<longrightarrow>
      c' = c\<lparr>game := (game c)\<lparr>player2 := sender, status := InProgress\<rparr>,
             emitted := emitted c @ [GameJoined sender]\<rparr>) \<and>
   (\<forall>e. joinGame sender c = Inl e \<longrightarrow>
      step fromExternal (sender, JoinGame) c = c \<and>
      (kind e = Some NoGame \<and> player1 (game c) = 0 \<or>
       kind e = Some SelfJoin \<and> player1 (game c) \<noteq> 0 \<and> sender = player1 (game c) \<or>
       kind e = Some SeatTaken \<and> player1 (game c) \<noteq> 0 \<and>
         (player2 (game c) \<noteq> 0 \<or> status (game c) \<noteq> Waiting))) \<and>
   (\<exists>e. joinGame sender c = Inl e \<and> kind e = Some NoGame) = (player1 (game c) = 0) \<and>
   (\<exists>e. joinGame sender c = Inl e \<and> kind e = Some SelfJoin) =
     (player1 (game c) \<noteq> 0 \<and> player2 (game c) = 0 \<and> sender = player1 (game c)) \<and>
   (\<exists>e. joinGame sender c = Inl e \<and> kind e = Some SeatTaken) =
     (player1 (game c) \<noteq> 0 \<and>
      (player2 (game c) \<noteq> 0 \<or> sender \<noteq> player1 (game c) \<and> status (game c) \<noteq> Waiting))"
proof -
  have a: "(\<exists>c'. joinGame sender c = Inr c') =
     (player1 (game c) \<noteq> 0 \<and> status (game c) = Waiting \<and> player2 (game c) = 0 \<and>
      sender \<noteq> player1 (game c))"
    by (auto simp: joinGame_def)
  have b: "\<forall>c'. joinGame sender c = Inr c' \<longrightarrow>
      c' = c\<lparr>game := (game c)\<lparr>player2 := sender, status := InProgress\<rparr>,
             emitted := emitted c @ [GameJoined sender]\<rparr>"
    by (auto simp: joinGame_def emit_def split: if_splits)
  have c: "\<forall>e. joinGame sender c = Inl e \<longrightarrow>
      step fromExternal (sender, JoinGame) c = c \<and>
      (kind e = Some NoGame \<and> player1 (game c) = 0 \<or>
       kind e = Some SelfJoin \<and> player1 (game c) \<noteq> 0 \<and> sender = player1 (game c) \<or>
       kind e = Some SeatTaken \<and> player1 (game c) \<noteq> 0 \<and>
         (player2 (game c) \<noteq> 0 \<or> status (game c) \<noteq> Waiting))"
    by (auto simp: joinGame_def step_def split: if_splits)
  have d: "(\<exists>e. joinGame sender c = Inl e \<and> kind e = Some NoGame) = (player1 (game c) = 0)"
    by (simp add: joinGame_def)
  have e: "(\<exists>e. joinGame sender c = Inl e \<and> kind e = Some SelfJoin) =
     (player1 (game c) \<noteq> 0 \<and> player2 (game c) = 0 \<and> sender = player1 (game c))"
    by (auto simp: joinGame_def)
  have f: "(\<exists>e. joinGame sender c = Inl e \<and> kind e = Some SeatTaken) =
     (player1 (game c) \<noteq> 0 \<and>
      (player2 (game c) \<noteq> 0 \<or> sender \<noteq> player1 (game c) \<and> status (game c) \<noteq> Waiting))"
    by (auto simp: joinGame_def)
  from a b c d e f show ?thesis by (intro conjI)
qed



theorem C5_join_witness:
  "player1 (game (run admit_all deployed [(1, StartGame)])) = 1 \<and>
   status (game (run admit_all deployed [(1, StartGame)])) = Waiting \<and>
   player2 (game (run admit_all deployed [(1, StartGame)])) = 0 \<and>
   joinGame 2 (run admit_all deployed [(1, StartGame)])
     = Inr (run admit_all deployed [(1, StartGame), (2, JoinGame)]) \<and>
   player2 (game (run admit_all deployed [(1, StartGame), (2, JoinGame)])) = 2 \<and>
   status (game (run admit_all deployed [(1, StartGame), (2, JoinGame)])) = InProgress \<and>
   joinGame 1 (run admit_all deployed [(1, StartGame)]) = Inl Cannot_join_your_own_game \<and>
   kind Cannot_join_your_own_game = Some SelfJoin \<and>
   step admit_all (1, JoinGame) (run admit_all deployed [(1, StartGame)])
     = run admit_all deployed [(1, StartGame)]"
proof -
  let ?c1 = "run admit_all deployed [(1, StartGame)]"
  let ?c2 = "run admit_all deployed [(1, StartGame), (2, JoinGame)]"
  have h1: "player1 (game ?c1) = 1" "status (game ?c1) = Waiting" "player2 (game ?c1) = 0"
    unfolding example_waiting by simp_all
  have h2: "?c2 = ?c1\<lparr>game := (game ?c1)\<lparr>player2 := 2, status := InProgress\<rparr>,
                     emitted := emitted ?c1 @ [GameJoined 2]\<rparr>"
    by (simp add: op_defs)
  have h3: "player2 (game ?c2) = 2" "status (game ?c2) = InProgress"
    by (simp_all add: op_defs)
  have n: "(2 :: address) \<noteq> 1" "(1 :: address) \<noteq> 0" by simp_all
  note t2 = C5_join [of 2 ?c1 admit_all]
  note t1 = C5_join [of 1 ?c1 admit_all]
  from t2 h1 n obtain c' where c': "joinGame 2 ?c1 = Inr c'" by auto
  with t2 have "c' = ?c1\<lparr>game := (game ?c1)\<lparr>player2 := 2, status := InProgress\<rparr>,
                     emitted := emitted ?c1 @ [GameJoined 2]\<rparr>"
    by blast
  with c' h2 have a: "joinGame 2 ?c1 = Inr ?c2" by simp
  from t1 h1 n obtain e where e: "joinGame 1 ?c1 = Inl e" "kind e = Some SelfJoin"
    by auto
  then have "e = Cannot_join_your_own_game" by (cases e) simp_all
  with e have b: "joinGame 1 ?c1 = Inl Cannot_join_your_own_game"
    "kind Cannot_join_your_own_game = Some SelfJoin" by simp_all
  from t1 b(1) have c: "step admit_all (1, JoinGame) ?c1 = ?c1" by blast
  from h1 h3 a b c show ?thesis by blast
qed


subsection \<open>C6: no second game while one is live\<close>

text \<open>
  C6. The specification's status Empty, "no game yet", is in the contract the state
  in which \<open>player1\<close> is the zero address (there \<open>joinGame\<close> and
  \<open>submitEncryptedChoice\<close> answer "Game not started"); its status field holds the
  enum's first value. The specification's Waiting and InProgress are therefore the
  states with a started game, \<open>player1\<close> not the zero address, whose status field is
  \<open>Waiting\<close> or \<open>InProgress\<close>; a reachable state with status \<open>InProgress\<close> always
  has a started game. In every such reachable state \<open>startGame\<close> fails with
  "Game already started" (AlreadyInProgress) and leaves the state unchanged, so no
  second live game is ever created.
\<close>

theorem C6_start_rejected_while_live:
  assumes "senders_ok txs" and "c = run fromExternal deployed txs"
    and "status (game c) = InProgress \<or> status (game c) = Waiting \<and> player1 (game c) \<noteq> 0"
  shows "startGame sender c = Inl Game_already_started \<and>
         kind Game_already_started = Some AlreadyInProgress \<and>
         step fromExternal (sender, StartGame) c = c"
proof -
  have "game_inv c"
    using assms(1,2) by (simp add: game_inv_reachable)
  with assms(3) have "player1 (game c) \<noteq> 0"
    using game_inv_player1(1) [of c] by auto
  then have "startGame sender c = Inl Game_already_started"
    by (simp add: startGame_cases)
  then show ?thesis by (simp add: step_def)
qed

theorem C6_start_rejected_while_live_witness:
  "senders_ok [(1, StartGame), (2, JoinGame)] \<and>
   status (game (run admit_all deployed [(1, StartGame), (2, JoinGame)])) = InProgress \<and>
   startGame 3 (run admit_all deployed [(1, StartGame), (2, JoinGame)])
     = Inl Game_already_started \<and>
   step admit_all (3, StartGame) (run admit_all deployed [(1, StartGame), (2, JoinGame)])
     = run admit_all deployed [(1, StartGame), (2, JoinGame)]"
proof -
  have h1: "senders_ok [(1, StartGame), (2, JoinGame)]"
    by (simp add: senders_ok_def)
  have h3: "status (game (run admit_all deployed [(1, StartGame), (2, JoinGame)])) = InProgress"
    by (simp add: op_defs)
  from C6_start_rejected_while_live [OF h1 refl disjI1, OF h3, of 3] h1 h3
  show ?thesis by blast
qed


subsection \<open>C7: what is declassified\<close>

text \<open>
  C7. Write \<open>aWinsHandle\<close> for the handle of the disjunction of the three per-shape
  booleans over the two stored choices and \<open>tieHandle\<close> for the handle of their
  equality. In every state \<open>c\<close> the contract reaches, the handles marked publicly
  decryptable are: none while the game is not \<open>Completed\<close>, and exactly
  \<open>aWinsHandle\<close> and \<open>tieHandle\<close>, each once, when it is; these are the values
  stored in \<open>encryptedP1Wins\<close> and \<open>encryptedIsTie\<close>, and what they reveal is the
  outcome of the game: whether player 1's plaintext beats player 2's, and whether the
  two are equal. A call marks handles only if it is the one that completes the game,
  and then these two. The two stored choices and the three per-shape intermediate
  booleans are never among the marked handles. Consequently two assignments of
  plaintexts to the input ciphertexts that give a completed game the same outcome
  give the same public view of the state (the result of \<open>getGame\<close>, the stored
  record, the event log, the handles granted and marked, and the plaintext of every
  marked handle); before completion every two assignments do.
\<close>

theorem C7_only_results_declassified:
  assumes "senders_ok txs" and "c = run fromExternal deployed txs"
    and "fst tx \<noteq> 0" and "c' = step fromExternal tx c"
    and "aWinsHandle = (\<lambda>g. HandleBool
           (FHE_or (FHE_or (p1WinsRock g) (p1WinsPaper g)) (p1WinsScissors g)))"
    and "tieHandle = (\<lambda>g. HandleBool
           (FHE_eq (encryptedPlayer1Choice g) (encryptedPlayer2Choice g)))"
  shows "publiclyDecryptable c =
           (if status (game c) = Completed then [aWinsHandle (game c), tieHandle (game c)]
            else []) \<and>
         (status (game c) = Completed \<longrightarrow>
            HandleBool (encryptedP1Wins (game c)) = aWinsHandle (game c) \<and>
            HandleBool (encryptedIsTie (game c)) = tieHandle (game c)) \<and>
         map (reveal pt) (publiclyDecryptable c) =
           (if status (game c) = Completed
            then [PlainBool (p1_beats (decrypt32 pt (encryptedPlayer1Choice (game c)))
                                      (decrypt32 pt (encryptedPlayer2Choice (game c)))),
                  PlainBool (decrypt32 pt (encryptedPlayer1Choice (game c)) =
                             decrypt32 pt (encryptedPlayer2Choice (game c)))]
            else []) \<and>
         publiclyDecryptable c' =
           publiclyDecryptable c @
             (if status (game c) \<noteq> Completed \<and> status (game c') = Completed
              then [aWinsHandle (game c'), tieHandle (game c')]
              else []) \<and>
         distinct (publiclyDecryptable c) \<and>
         Handle32 (encryptedPlayer1Choice (game c)) \<notin> set (publiclyDecryptable c) \<and>
         Handle32 (encryptedPlayer2Choice (game c)) \<notin> set (publiclyDecryptable c) \<and>
         HandleBool (p1WinsRock (game c)) \<notin> set (publiclyDecryptable c) \<and>
         HandleBool (p1WinsPaper (game c)) \<notin> set (publiclyDecryptable c) \<and>
         HandleBool (p1WinsScissors (game c)) \<notin> set (publiclyDecryptable c) \<and>
         ((status (game c) = Completed \<longrightarrow> outcome pt (game c) = outcome pt' (game c))
            \<longrightarrow> publicView pt c = publicView pt' c)"
proof -
  have i: "game_inv c"
    using assms(1,2) by (simp add: game_inv_reachable)
  have i': "game_inv c'"
    unfolding assms(4) using i assms(3) by (rule game_inv_step)
  have f: "HandleBool (encryptedP1Wins (game x)) = aWinsHandle (game x) \<and>
           HandleBool (encryptedIsTie (game x)) = tieHandle (game x)"
    if "game_inv x" "status (game x) = Completed" for x
    unfolding assms(5,6) using game_inv_results [OF that] by simp
  have p: "publiclyDecryptable x =
           (if status (game x) = Completed then [aWinsHandle (game x), tieHandle (game x)]
            else [])" if "game_inv x" for x
    using game_inv_public [OF that] f [OF that] by simp
  have s: "publiclyDecryptable c' =
           publiclyDecryptable c @
             (if status (game c) \<noteq> Completed \<and> status (game c') = Completed
              then [aWinsHandle (game c'), tieHandle (game c')]
              else [])"
    using publiclyDecryptable_step [OF i assms(3), of fromExternal] f [OF i']
    unfolding assms(4) by simp
  have r: "map (reveal pt) (publiclyDecryptable c) =
           (if status (game c) = Completed
            then [PlainBool (p1_beats (decrypt32 pt (encryptedPlayer1Choice (game c)))
                                      (decrypt32 pt (encryptedPlayer2Choice (game c)))),
                  PlainBool (decrypt32 pt (encryptedPlayer1Choice (game c)) =
                             decrypt32 pt (encryptedPlayer2Choice (game c)))]
            else [])"
    using revealed_results [OF i, of pt] by (simp add: outcome_def)
  note n = not_declassified [OF i]
  from p [OF i] f [OF i] r s n(1) n(2) n(3) publicView_outcome [OF i, of pt pt']
  show ?thesis
    unfolding p1WinsRock_def p1WinsPaper_def p1WinsScissors_def
    by (intro conjI impI) blast+
qed


theorem C7_only_results_declassified_witness:
  "senders_ok [(1, StartGame), (2, JoinGame), (1, SubmitEncryptedChoice 10 [])] \<and>
   publiclyDecryptable (run admit_all deployed
       [(1, StartGame), (2, JoinGame), (1, SubmitEncryptedChoice 10 [])]) = [] \<and>
   publiclyDecryptable (run admit_all deployed
       [(1, StartGame), (2, JoinGame), (1, SubmitEncryptedChoice 10 []),
        (2, SubmitEncryptedChoice 20 [])]) =
     [HandleBool
        (FHE_or
           (FHE_or
              (FHE_and (FHE_eq (Ciphertext32 10) (FHE_asEuint32 0))
                       (FHE_eq (Ciphertext32 20) (FHE_asEuint32 2)))
              (FHE_and (FHE_eq (Ciphertext32 10) (FHE_asEuint32 1))
                       (FHE_eq (Ciphertext32 20) (FHE_asEuint32 0))))
           (FHE_and (FHE_eq (Ciphertext32 10) (FHE_asEuint32 2))
                    (FHE_eq (Ciphertext32 20) (FHE_asEuint32 1)))),
      HandleBool (FHE_eq (Ciphertext32 10) (Ciphertext32 20))] \<and>
   map (reveal (\<lambda>h. if h = 10 then ROCK else SCISSORS))
     (publiclyDecryptable (run admit_all deployed
       [(1, StartGame), (2, JoinGame), (1, SubmitEncryptedChoice 10 []),
        (2, SubmitEncryptedChoice 20 [])])) = [PlainBool True, PlainBool False] \<and>
   decrypt32 (\<lambda>h. if h = 10 then ROCK else SCISSORS)
     (encryptedPlayer1Choice (game (run admit_all deployed
        [(1, StartGame), (2, JoinGame), (1, SubmitEncryptedChoice 10 []),
         (2, SubmitEncryptedChoice 20 [])]))) = ROCK \<and>
   decrypt32 (\<lambda>h. if h = 10 then PAPER else ROCK)
     (encryptedPlayer1Choice (game (run admit_all deployed
        [(1, StartGame), (2, JoinGame), (1, SubmitEncryptedChoice 10 []),
         (2, SubmitEncryptedChoice 20 [])]))) = PAPER \<and>
   outcome (\<lambda>h. if h = 10 then ROCK else SCISSORS)
     (game (run admit_all deployed
        [(1, StartGame), (2, JoinGame), (1, SubmitEncryptedChoice 10 []),
         (2, SubmitEncryptedChoice 20 [])])) =
   outcome (\<lambda>h. if h = 10 then PAPER else ROCK)
     (game (run admit_all deployed
        [(1, StartGame), (2, JoinGame), (1, SubmitEncryptedChoice 10 []),
         (2, SubmitEncryptedChoice 20 [])])) \<and>
   publicView (\<lambda>h. if h = 10 then ROCK else SCISSORS)
     (run admit_all deployed
        [(1, StartGame), (2, JoinGame), (1, SubmitEncryptedChoice 10 []),
         (2, SubmitEncryptedChoice 20 [])]) =
   publicView (\<lambda>h. if h = 10 then PAPER else ROCK)
     (run admit_all deployed
        [(1, StartGame), (2, JoinGame), (1, SubmitEncryptedChoice 10 []),
         (2, SubmitEncryptedChoice 20 [])])"
proof -
  let ?txs3 = "[(1, StartGame), (2, JoinGame), (1, SubmitEncryptedChoice 10 [])]
                :: (address \<times> call) list"
  let ?txs4 = "[(1, StartGame), (2, JoinGame), (1, SubmitEncryptedChoice 10 []),
                (2, SubmitEncryptedChoice 20 [])] :: (address \<times> call) list"
  let ?c3 = "run admit_all deployed ?txs3"
  let ?c4 = "run admit_all deployed ?txs4"
  let ?pt = "\<lambda>h::bytes32. if h = 10 then ROCK else SCISSORS"
  let ?pt' = "\<lambda>h::bytes32. if h = 10 then PAPER else ROCK"
  have h1: "senders_ok ?txs3" by (simp add: senders_ok_def)
  have h2: "senders_ok ?txs4" by (rule senders_ok_example)
  have h3: "fst (2 :: address, SubmitEncryptedChoice 20 []) \<noteq> 0" by simp
  have h4: "?c4 = step admit_all (2, SubmitEncryptedChoice 20 []) ?c3"
    by simp
  have s3: "status (game ?c3) \<noteq> Completed"
    unfolding example_one_choice by simp
  have s4: "status (game ?c4) = Completed"
    unfolding example_completed by simp
  have g4: "encryptedPlayer1Choice (game ?c4) = Ciphertext32 10"
           "encryptedPlayer2Choice (game ?c4) = Ciphertext32 20"
    unfolding example_completed by simp_all
  have o: "outcome ?pt (game ?c4) = outcome ?pt' (game ?c4)"
    unfolding example_completed
    by (simp add: outcome_def p1_beats_def ROCK_def PAPER_def SCISSORS_def)
  have d: "decrypt32 ?pt (encryptedPlayer1Choice (game ?c4)) = ROCK"
          "decrypt32 ?pt' (encryptedPlayer1Choice (game ?c4)) = PAPER"
    unfolding example_completed by simp_all
  note a = C7_only_results_declassified
    [where fromExternal = admit_all and pt = ?pt and pt' = ?pt', OF h1 refl h3 h4 refl refl]
  note b = C7_only_results_declassified
    [where fromExternal = admit_all and pt = ?pt and pt' = ?pt', OF h2 refl h3 refl refl refl]
  from a [THEN conjunct1] have p3: "publiclyDecryptable ?c3 = []"
    by (simp only: s3 if_False)
  from b [THEN conjunct1] have "publiclyDecryptable ?c4 =
      [HandleBool (FHE_or (FHE_or (p1WinsRock (game ?c4)) (p1WinsPaper (game ?c4)))
                          (p1WinsScissors (game ?c4))),
       HandleBool (FHE_eq (encryptedPlayer1Choice (game ?c4))
                          (encryptedPlayer2Choice (game ?c4)))]"
    by (simp only: s4 if_True simp_thms)
  then have p4: "publiclyDecryptable ?c4 =
     [HandleBool
        (FHE_or
           (FHE_or
              (FHE_and (FHE_eq (Ciphertext32 10) (FHE_asEuint32 0))
                       (FHE_eq (Ciphertext32 20) (FHE_asEuint32 2)))
              (FHE_and (FHE_eq (Ciphertext32 10) (FHE_asEuint32 1))
                       (FHE_eq (Ciphertext32 20) (FHE_asEuint32 0))))
           (FHE_and (FHE_eq (Ciphertext32 10) (FHE_asEuint32 2))
                    (FHE_eq (Ciphertext32 20) (FHE_asEuint32 1)))),
      HandleBool (FHE_eq (Ciphertext32 10) (Ciphertext32 20))]"
    by (simp only: g4 p1WinsRock_def p1WinsPaper_def p1WinsScissors_def)
  from b [THEN conjunct2, THEN conjunct2, THEN conjunct1]
  have "map (reveal ?pt) (publiclyDecryptable ?c4) =
      [PlainBool (p1_beats (decrypt32 ?pt (encryptedPlayer1Choice (game ?c4)))
                           (decrypt32 ?pt (encryptedPlayer2Choice (game ?c4)))),
       PlainBool (decrypt32 ?pt (encryptedPlayer1Choice (game ?c4)) =
                  decrypt32 ?pt (encryptedPlayer2Choice (game ?c4)))]"
    by (simp only: s4 if_True simp_thms)
  then have r4: "map (reveal ?pt) (publiclyDecryptable ?c4) = [PlainBool True, PlainBool False]"
    unfolding g4 by (simp add: p1_beats_def ROCK_def PAPER_def SCISSORS_def)
  from b o have v: "publicView ?pt ?c4 = publicView ?pt' ?c4" by blast
  from h1 p3 p4 r4 d o v show ?thesis by blast
qed

subsection \<open>C8: the read\<close>

text \<open>
  C8, as the claim states it: \<open>getGame\<close> returns exactly the five components
  (player1, player2, encryptedAWins, encryptedTie, status). The contract returns six:
  after a complete game the result differs from the five-component read of the
  specification.
\<close>

theorem C8_counterexample:
  "getGame (run admit_all deployed
       [(1, StartGame), (2, JoinGame), (1, SubmitEncryptedChoice 10 []),
        (2, SubmitEncryptedChoice 20 [])]) \<noteq>
   resolve_spec (run admit_all deployed
       [(1, StartGame), (2, JoinGame), (1, SubmitEncryptedChoice 10 []),
        (2, SubmitEncryptedChoice 20 [])])"
  by (simp add: getGame_def resolve_spec_def)

text \<open>
  C8, amended: \<open>getGame\<close> returns, for any caller and in every reachable state, the
  six components (player1, player2, encryptedP1Wins, encryptedIsTie, winner, status).
  The \<open>winner\<close> field is stored in the record but never computed: it is the zero
  address in every reachable state. Leaving the fifth component out gives the
  five-component read of the specification.
\<close>

theorem C8_getGame_six_components:
  assumes "senders_ok txs" and "c = run fromExternal deployed txs"
  shows "getGame c =
           [Address (player1 (game c)), Address (player2 (game c)),
            Ebool (encryptedP1Wins (game c)), Ebool (encryptedIsTie (game c)),
            Address 0, Status (status (game c))] \<and>
         winner (game c) = 0 \<and>
         resolve_spec c = take 4 (getGame c) @ drop 5 (getGame c)"
proof -
  have "game_inv c"
    using assms by (simp add: game_inv_reachable)
  then have "winner (game c) = 0" by (rule game_inv_winner)
  then show ?thesis by (simp add: getGame_def resolve_spec_def)
qed

theorem C8_getGame_six_components_witness:
  "senders_ok [(1, StartGame), (2, JoinGame), (1, SubmitEncryptedChoice 10 []),
        (2, SubmitEncryptedChoice 20 [])] \<and>
   getGame (run admit_all deployed
       [(1, StartGame), (2, JoinGame), (1, SubmitEncryptedChoice 10 []),
        (2, SubmitEncryptedChoice 20 [])]) =
     [Address 1, Address 2,
      Ebool (FHE_or
               (FHE_or
                  (FHE_and (FHE_eq (Ciphertext32 10) (FHE_asEuint32 0))
                           (FHE_eq (Ciphertext32 20) (FHE_asEuint32 2)))
                  (FHE_and (FHE_eq (Ciphertext32 10) (FHE_asEuint32 1))
                           (FHE_eq (Ciphertext32 20) (FHE_asEuint32 0))))
               (FHE_and (FHE_eq (Ciphertext32 10) (FHE_asEuint32 2))
                        (FHE_eq (Ciphertext32 20) (FHE_asEuint32 1)))),
      Ebool (FHE_eq (Ciphertext32 10) (Ciphertext32 20)),
      Address 0, Status Completed]"
proof -
  let ?txs4 = "[(1, StartGame), (2, JoinGame), (1, SubmitEncryptedChoice 10 []),
                (2, SubmitEncryptedChoice 20 [])] :: (address \<times> call) list"
  have h: "senders_ok ?txs4" by (rule senders_ok_example)
  from C8_getGame_six_components [where fromExternal = admit_all, OF h refl]
  have "getGame (run admit_all deployed ?txs4) =
           [Address (player1 (game (run admit_all deployed ?txs4))),
            Address (player2 (game (run admit_all deployed ?txs4))),
            Ebool (encryptedP1Wins (game (run admit_all deployed ?txs4))),
            Ebool (encryptedIsTie (game (run admit_all deployed ?txs4))),
            Address 0, Status (status (game (run admit_all deployed ?txs4)))]"
    by blast
  then have "getGame (run admit_all deployed ?txs4) =
     [Address 1, Address 2,
      Ebool (FHE_or
               (FHE_or
                  (FHE_and (FHE_eq (Ciphertext32 10) (FHE_asEuint32 0))
                           (FHE_eq (Ciphertext32 20) (FHE_asEuint32 2)))
                  (FHE_and (FHE_eq (Ciphertext32 10) (FHE_asEuint32 1))
                           (FHE_eq (Ciphertext32 20) (FHE_asEuint32 0))))
               (FHE_and (FHE_eq (Ciphertext32 10) (FHE_asEuint32 2))
                        (FHE_eq (Ciphertext32 20) (FHE_asEuint32 1)))),
      Ebool (FHE_eq (Ciphertext32 10) (Ciphertext32 20)),
      Address 0, Status Completed]"
    unfolding example_completed by simp
  with h show ?thesis by blast
qed

subsection \<open>C9: events\<close>

text \<open>
  C9, as the claim states it: the submit that moves the game to \<open>Completed\<close> emits a
  game-completed event besides the choice-submitted one. The contract declares
  \<open>GameCompleted\<close> and never emits it: the completing submit of player 2 appends
  only \<open>EncryptedChoiceSubmitted\<close>, and the log of the complete game holds no
  \<open>GameCompleted\<close>.
\<close>

theorem C9_counterexample:
  "submitEncryptedChoice admit_all 2 20 []
       (run admit_all deployed
          [(1, StartGame), (2, JoinGame), (1, SubmitEncryptedChoice 10 [])])
     = Inr (run admit_all deployed
          [(1, StartGame), (2, JoinGame), (1, SubmitEncryptedChoice 10 []),
           (2, SubmitEncryptedChoice 20 [])]) \<and>
   status (game (run admit_all deployed
          [(1, StartGame), (2, JoinGame), (1, SubmitEncryptedChoice 10 [])])) = InProgress \<and>
   status (game (run admit_all deployed
          [(1, StartGame), (2, JoinGame), (1, SubmitEncryptedChoice 10 []),
           (2, SubmitEncryptedChoice 20 [])])) = Completed \<and>
   emitted (run admit_all deployed
          [(1, StartGame), (2, JoinGame), (1, SubmitEncryptedChoice 10 []),
           (2, SubmitEncryptedChoice 20 [])]) =
     [GameStarted 1, GameJoined 2, EncryptedChoiceSubmitted 1, EncryptedChoiceSubmitted 2] \<and>
   filter isGameCompleted (emitted (run admit_all deployed
          [(1, StartGame), (2, JoinGame), (1, SubmitEncryptedChoice 10 []),
           (2, SubmitEncryptedChoice 20 [])])) = []"
  unfolding example_one_choice example_completed
  by (simp add: submitEncryptedChoice_def afterStore_def computeWinnerFHE_def emit_def
        FHE_allowThis_def FHE_makePubliclyDecryptable_def admit_all_def Let_def)

text \<open>
  C9, amended: three events are emitted, each at its transition: a successful
  \<open>startGame\<close> appends exactly \<open>GameStarted\<close>, a successful \<open>joinGame\<close> exactly
  \<open>GameJoined\<close>, a successful \<open>submitEncryptedChoice\<close> exactly
  \<open>EncryptedChoiceSubmitted\<close>, also when it completes the game; a call that reverts
  appends nothing. No run of the contract ever emits \<open>GameCompleted\<close>.
\<close>

theorem C9_three_events_emitted:
  "(startGame sender c = Inr c' \<longrightarrow> emitted c' = emitted c @ [GameStarted sender]) \<and>
   (joinGame sender c = Inr c' \<longrightarrow> emitted c' = emitted c @ [GameJoined sender]) \<and>
   (submitEncryptedChoice fromExternal sender inputEuint32 inputProof c = Inr c' \<longrightarrow>
      emitted c' = emitted c @ [EncryptedChoiceSubmitted sender]) \<and>
   (exec fromExternal tx c = Inl e \<longrightarrow> emitted (step fromExternal tx c) = emitted c) \<and>
   filter isGameCompleted (emitted (run fromExternal deployed txs)) = []"
proof -
  have "filter isGameCompleted (emitted deployed) = []"
    by (simp add: deployed_def)
  then have "filter isGameCompleted (emitted (run fromExternal deployed txs)) = []"
    by (rule no_GameCompleted_run)
  then show ?thesis
    by (simp add: emitted_startGame emitted_joinGame emitted_submit step_revert)
qed

theorem C9_three_events_emitted_witness:
  "submitEncryptedChoice admit_all 2 20 []
       (run admit_all deployed
          [(1, StartGame), (2, JoinGame), (1, SubmitEncryptedChoice 10 [])])
     = Inr (run admit_all deployed
          [(1, StartGame), (2, JoinGame), (1, SubmitEncryptedChoice 10 []),
           (2, SubmitEncryptedChoice 20 [])]) \<and>
   emitted (run admit_all deployed
          [(1, StartGame), (2, JoinGame), (1, SubmitEncryptedChoice 10 []),
           (2, SubmitEncryptedChoice 20 [])]) =
     emitted (run admit_all deployed
          [(1, StartGame), (2, JoinGame), (1, SubmitEncryptedChoice 10 [])])
       @ [EncryptedChoiceSubmitted 2] \<and>
   filter isGameCompleted (emitted (run admit_all deployed
          [(1, StartGame), (2, JoinGame), (1, SubmitEncryptedChoice 10 []),
           (2, SubmitEncryptedChoice 20 [])])) = []"
proof -
  let ?c3 = "run admit_all deployed
          [(1, StartGame), (2, JoinGame), (1, SubmitEncryptedChoice 10 [])]"
  let ?txs4 = "[(1, StartGame), (2, JoinGame), (1, SubmitEncryptedChoice 10 []),
                (2, SubmitEncryptedChoice 20 [])] :: (address \<times> call) list"
  have h: "submitEncryptedChoice admit_all 2 20 [] ?c3 = Inr (run admit_all deployed ?txs4)"
    unfolding example_one_choice example_completed
    by (simp add: submitEncryptedChoice_def afterStore_def computeWinnerFHE_def emit_def
          FHE_allowThis_def FHE_makePubliclyDecryptable_def admit_all_def Let_def)
  from C9_three_events_emitted
         [where sender = 2 and c = ?c3 and c' = "run admit_all deployed ?txs4"
            and fromExternal = admit_all and inputProof = "[]"
            and txs = ?txs4] h
  show ?thesis by blast
qed

subsection \<open>C10: no game means \<open>player1\<close> is the zero address\<close>

text \<open>
  C10. The status type has the three values \<open>Waiting\<close>, \<open>InProgress\<close>,
  \<open>Completed\<close> and no other. Right after deployment the status field holds
  \<open>Waiting\<close> and \<open>player1\<close> is the zero address. In any state, whatever its status
  field, \<open>joinGame\<close> and \<open>submitEncryptedChoice\<close> fail with the no-game failure
  exactly when \<open>player1\<close> is the zero address, and \<open>startGame\<close> succeeds exactly when
  \<open>player1\<close> is the zero address and reverts with "Game already started" exactly when
  it is not.
\<close>

theorem C10_no_game_is_zero_player1:
  "(UNIV :: GameStatus set) = {Waiting, InProgress, Completed} \<and>
   status (game deployed) = Waiting \<and> player1 (game deployed) = 0 \<and>
   (\<exists>e. joinGame sender c = Inl e \<and> kind e = Some NoGame) = (player1 (game c) = 0) \<and>
   (\<exists>e. submitEncryptedChoice fromExternal sender inputEuint32 inputProof c = Inl e \<and>
        kind e = Some NoGame) = (player1 (game c) = 0) \<and>
   (\<exists>c'. startGame sender c = Inr c') = (player1 (game c) = 0) \<and>
   (startGame sender c = Inl Game_already_started) = (player1 (game c) \<noteq> 0)"
proof -
  have u: "(UNIV :: GameStatus set) = {Waiting, InProgress, Completed}"
  proof -
    have "x \<in> {Waiting, InProgress, Completed}" for x :: GameStatus
      by (cases x) simp_all
    then show ?thesis by blast
  qed
  have d: "status (game deployed) = Waiting \<and> player1 (game deployed) = 0"
    by (simp add: deployed_def)
  have j: "(\<exists>e. joinGame sender c = Inl e \<and> kind e = Some NoGame) = (player1 (game c) = 0)"
    by (simp add: joinGame_def)
  have s: "(\<exists>e. submitEncryptedChoice fromExternal sender inputEuint32 inputProof c = Inl e \<and>
        kind e = Some NoGame) = (player1 (game c) = 0)"
    by (simp add: submitEncryptedChoice_def split: option.split)
  have g: "(\<exists>c'. startGame sender c = Inr c') = (player1 (game c) = 0)"
    by (simp add: startGame_cases)
  have g': "(startGame sender c = Inl Game_already_started) = (player1 (game c) \<noteq> 0)"
    by (simp add: startGame_cases)
  from u d j s g g' show ?thesis by (intro conjI) simp_all
qed

theorem C10_no_game_is_zero_player1_witness:
  "status (game deployed) = Waiting \<and> player1 (game deployed) = 0 \<and>
   joinGame 2 deployed = Inl Game_not_started \<and>
   submitEncryptedChoice admit_all 1 10 [] deployed = Inl Game_not_started \<and>
   startGame 1 deployed = Inr (run admit_all deployed [(1, StartGame)]) \<and>
   status (game (run admit_all deployed [(1, StartGame)])) = Waiting \<and>
   startGame 2 (run admit_all deployed [(1, StartGame)]) = Inl Game_already_started"
proof -
  let ?c1 = "run admit_all deployed [(1, StartGame)]"
  note t0 = C10_no_game_is_zero_player1 [of 2 deployed admit_all 10 "[]"]
  note t1 = C10_no_game_is_zero_player1 [of 2 ?c1 admit_all 10 "[]"]
  have d: "status (game deployed) = Waiting \<and> player1 (game deployed) = 0"
    using t0 by blast
  have p: "player1 (game ?c1) \<noteq> 0" "status (game ?c1) = Waiting"
    unfolding example_waiting by simp_all
  from t1 p have s: "startGame 2 ?c1 = Inl Game_already_started" by blast
  have j: "joinGame 2 deployed = Inl Game_not_started"
    by (simp add: joinGame_def deployed_def)
  have u: "submitEncryptedChoice admit_all 1 10 [] deployed = Inl Game_not_started"
    by (simp add: submitEncryptedChoice_def deployed_def)
  have g: "startGame 1 deployed = Inr ?c1"
    by (simp add: op_defs)
  from d j u g p s show ?thesis by blast
qed


end
